theory Spec2Isabelle
  imports Main "HOL-Library.Word"
begin

section \<open>Python values, exceptions and spans\<close>

text \<open>
  The three source files are Python. Their functions receive dynamically typed values, so
  the embedding has one datatype of Python values; a \<open>str\<close> is a list of code points
  (all below 256 in the literals of the sources), a \<open>dict\<close> with string keys is an
  association list, and any other object is given by the name of its type, the text that
  \<open>str()\<close> gives for it, and its attributes.
\<close>

datatype pyval =
    PNone
  | PBool bool
  | PInt int
  | PStr string
  | PList "pyval list"
  | PDict "(string \<times> pyval) list"
  | PObj string string "(string \<times> pyval) list"

text \<open>
  An exception instance: the name of its class, the names of the classes it inherits from,
  the text of \<open>str(e)\<close>, and a number that stands for the identity of the instance.
\<close>

datatype exn = Exn (exn_type: string) (exn_bases: "string list") (exn_msg: string) (exn_id: nat)

definition isinstance_exn :: "exn \<Rightarrow> string \<Rightarrow> bool" where
  "isinstance_exn e cls = (exn_type e = cls \<or> cls \<in> set (exn_bases e))"

text \<open>Exceptions that the interpreter itself raises on an ill-typed operation.\<close>

definition builtin_error :: "string \<Rightarrow> string \<Rightarrow> exn" where
  "builtin_error cls msg = Exn cls [''Exception'', ''BaseException''] msg 0"

datatype span_kind = INTERNAL | SERVER | CLIENT | PRODUCER | CONSUMER

datatype status_code = UNSET | OK | ERROR

record span =
  span_name :: string
  kind :: span_kind
  attributes :: "string \<rightharpoonup> pyval"
  events :: "(string \<times> (string \<times> pyval) list) list"
  recorded :: "exn list"
  span_status :: status_code
  ended :: bool

definition start_span :: "string \<Rightarrow> span_kind \<Rightarrow> span" where
  "start_span n k =
     \<lparr>span_name = n, kind = k, attributes = Map.empty, events = [], recorded = [],
      span_status = UNSET, ended = False\<rparr>"

definition set_attribute :: "string \<Rightarrow> pyval \<Rightarrow> span \<Rightarrow> span" where
  "set_attribute k v s = s\<lparr>attributes := (attributes s)(k \<mapsto> v)\<rparr>"

definition add_event :: "string \<Rightarrow> (string \<times> pyval) list \<Rightarrow> span \<Rightarrow> span" where
  "add_event n as s = s\<lparr>events := events s @ [(n, as)]\<rparr>"

definition record_exception :: "exn \<Rightarrow> span \<Rightarrow> span" where
  "record_exception e s = s\<lparr>recorded := recorded s @ [e]\<rparr>"

definition set_status :: "status_code \<Rightarrow> span \<Rightarrow> span" where
  "set_status c s = s\<lparr>span_status := c\<rparr>"

text \<open>
  A span holds what is written to it: its attributes, its events, the exceptions recorded
  on it and its status. \<open>end_span\<close> is \<open>span.end()\<close>.
\<close>

definition end_span :: "span \<Rightarrow> span" where
  "end_span s = s\<lparr>ended := True\<rparr>"

text \<open>
  \<open>exit_span\<close> is leaving the \<open>with\<close> block of \<open>tracer.start_as_current_span\<close>, which the
  source calls with the defaults of the SDK, \<open>record_exception=True\<close>,
  \<open>set_status_on_exception=True\<close> and \<open>end_on_exit=True\<close>: when the block is left by an
  exception that is an instance of \<open>Exception\<close>, the context manager records the exception
  on the span and sets the status of the span to ERROR; on every exit path the span ends.
  The two tools leave their block by an exception only when it is outside \<open>Exception\<close>,
  where leaving is ending.
\<close>

definition exit_span :: "exn option \<Rightarrow> span \<Rightarrow> span" where
  "exit_span raised s =
     end_span
       (case raised of
          None \<Rightarrow> s
        | Some e \<Rightarrow>
            if isinstance_exn e ''Exception'' then set_status ERROR (record_exception e s) else s)"

subsection \<open>Operations of the interpreter\<close>

fun truthy :: "pyval \<Rightarrow> bool" where
  "truthy PNone = False"
| "truthy (PBool b) = b"
| "truthy (PInt i) = (i \<noteq> 0)"
| "truthy (PStr s) = (s \<noteq> [])"
| "truthy (PList xs) = (xs \<noteq> [])"
| "truthy (PDict kvs) = (kvs \<noteq> [])"
| "truthy (PObj t r as) = True"

text \<open>\<open>a or b\<close>\<close>

definition py_or :: "pyval \<Rightarrow> pyval \<Rightarrow> pyval" where
  "py_or a b = (if truthy a then a else b)"

fun is_dict :: "pyval \<Rightarrow> bool" where
  "is_dict (PDict kvs) = True"
| "is_dict v = False"

text \<open>\<open>d.get(k, default)\<close> for a dict \<open>d\<close>; a later entry of the list is a later store.\<close>

definition dict_get :: "(string \<times> pyval) list \<Rightarrow> string \<Rightarrow> pyval \<Rightarrow> pyval" where
  "dict_get kvs k dflt = (case map_of (rev kvs) k of Some v \<Rightarrow> v | None \<Rightarrow> dflt)"

text \<open>\<open>kwargs.get(k)\<close>\<close>

definition kwargs_get :: "(string \<rightharpoonup> pyval) \<Rightarrow> string \<Rightarrow> pyval" where
  "kwargs_get kw k = (case kw k of Some v \<Rightarrow> v | None \<Rightarrow> PNone)"

text \<open>\<open>x[-1]\<close>\<close>

fun index_last :: "pyval \<Rightarrow> exn + pyval" where
  "index_last (PList xs) =
     (if xs = [] then Inl (builtin_error ''IndexError'' ''list index out of range'')
      else Inr (last xs))"
| "index_last (PStr s) =
     (if s = [] then Inl (builtin_error ''IndexError'' ''string index out of range'')
      else Inr (PStr [last s]))"
| "index_last (PDict kvs) = Inl (builtin_error ''KeyError'' ''-1'')"
| "index_last v = Inl (builtin_error ''TypeError'' ''object is not subscriptable'')"

text \<open>Substring test, and \<open>needle in x\<close> for a string \<open>needle\<close>.\<close>

fun is_prefix :: "string \<Rightarrow> string \<Rightarrow> bool" where
  "is_prefix [] s = True"
| "is_prefix (c # p) [] = False"
| "is_prefix (c # p) (d # s) = (c = d \<and> is_prefix p s)"

fun substring :: "string \<Rightarrow> string \<Rightarrow> bool" where
  "substring p [] = (p = [])"
| "substring p (c # s) = (is_prefix p (c # s) \<or> substring p s)"

fun py_in :: "string \<Rightarrow> pyval \<Rightarrow> exn + bool" where
  "py_in p (PStr s) = Inr (substring p s)"
| "py_in p (PList xs) = Inr (PStr p \<in> set xs)"
| "py_in p (PDict kvs) = Inr (p \<in> set (map fst kvs))"
| "py_in p v = Inl (builtin_error ''TypeError'' ''argument is not iterable'')"

fun py_len :: "pyval \<Rightarrow> exn + nat" where
  "py_len (PStr s) = Inr (length s)"
| "py_len (PList xs) = Inr (length xs)"
| "py_len (PDict kvs) = Inr (length (remdups (map fst kvs)))"
| "py_len v = Inl (builtin_error ''TypeError'' ''object has no len()'')"

text \<open>Decimal digits of an integer, as \<open>str()\<close> prints them.\<close>

definition digit_char :: "nat \<Rightarrow> char" where
  "digit_char d = ''0123456789'' ! d"

fun show_nat :: "nat \<Rightarrow> string" where
  "show_nat n = (if n < 10 then [digit_char n] else show_nat (n div 10) @ [digit_char (n mod 10)])"

declare show_nat.simps [simp del]

definition show_int :: "int \<Rightarrow> string" where
  "show_int i = (if i < 0 then CHR ''-'' # show_nat (nat (- i)) else show_nat (nat i))"

text \<open>
  \<open>str(v)\<close>, as an f-string applies it. The text of a list or of a dict is built from the
  \<open>repr\<close> of its elements; that printer is the parameter \<open>fmt\<close>.
\<close>

fun py_str :: "(pyval \<Rightarrow> string) \<Rightarrow> pyval \<Rightarrow> string" where
  "py_str fmt PNone = ''None''"
| "py_str fmt (PBool b) = (if b then ''True'' else ''False'')"
| "py_str fmt (PInt i) = show_int i"
| "py_str fmt (PStr s) = s"
| "py_str fmt (PObj t r as) = r"
| "py_str fmt v = fmt v"

text \<open>
  \<open>x[:1000] + '...' if len(x) > 1000 else x\<close>: the condition is evaluated first, and the
  sum of a list slice and a string is a type error.
\<close>

definition cap_text :: "pyval \<Rightarrow> exn + pyval" where
  "cap_text v =
     (case py_len v of
        Inl e \<Rightarrow> Inl e
      | Inr n \<Rightarrow>
          if n > 1000 then
            (case v of
               PStr s \<Rightarrow> Inr (PStr (take 1000 s @ ''...''))
             | PList xs \<Rightarrow> Inl (builtin_error ''TypeError'' ''can only concatenate list to list'')
             | _ \<Rightarrow> Inl (builtin_error ''TypeError'' ''unhashable type: slice''))
          else Inr v)"

section \<open>telemetry\_wrapper.py: the interception wrapper\<close>

text \<open>\<open>get_agent_role\<close>, lines 73 to 81.\<close>

definition get_agent_role :: "pyval \<Rightarrow> string" where
  "get_agent_role agent_name =
     (if agent_name = PStr ''PlanningAgent'' then ''orchestrator''
      else if agent_name \<in> set [PStr ''WeatherAgent'', PStr ''WebSearchAgent''] then ''executor''
      else ''unknown'')"

text \<open>
  An agent object, as far as the wrapper reads and writes it: the name of its class, its
  attribute \<open>name\<close> when it has one, and its attribute \<open>on_messages\<close> when it has one. The
  attribute holds either a coroutine function or some other value. A coroutine
  function is the one the agent came with, or the closure \<open>wrapped_method\<close> around one.
\<close>

datatype impl = Original nat | Instrumented impl

datatype attr = Coroutine impl | NotCoroutine

record agent =
  type_name :: string
  name_attr :: "pyval option"
  on_messages :: "attr option"

datatype flow = Return pyval | Raise exn | FallThrough

text \<open>Lines 110 to 118: the guess of the message type.\<close>

definition message_type :: "pyval \<Rightarrow> pyval \<Rightarrow> exn + string" where
  "message_type latest_message_content messages =
     (case py_in ''tool_code'' latest_message_content of
        Inl e \<Rightarrow> Inl e
      | Inr True \<Rightarrow> Inr ''tool_code''
      | Inr False \<Rightarrow>
          (case py_in ''tool_response'' latest_message_content of
             Inl e \<Rightarrow> Inl e
           | Inr True \<Rightarrow> Inr ''tool_response''
           | Inr False \<Rightarrow>
               if truthy messages then
                 (case py_len messages of
                    Inl e \<Rightarrow> Inl e
                  | Inr n \<Rightarrow> if n = 1 then Inr ''initial_request'' else Inr ''plain_text'')
               else Inr ''plain_text''))"

text \<open>Line 124: \<open>getattr(sender, 'name', str(sender) if sender else 'Unknown')\<close>.\<close>

definition sender_name :: "(pyval \<Rightarrow> string) \<Rightarrow> pyval \<Rightarrow> pyval" where
  "sender_name fmt sender =
     (let dflt = (if truthy sender then PStr (py_str fmt sender) else PStr ''Unknown'')
      in case sender of PObj t r as \<Rightarrow> dict_get as ''name'' dflt | _ \<Rightarrow> dflt)"

text \<open>
  Lines 132 to 168: the output content and the token usage read from the result. The
  serialiser \<open>json.dumps\<close> is the parameter \<open>dumps\<close>; it raises on a value it cannot encode.
\<close>

definition token_attributes :: "pyval \<Rightarrow> span \<Rightarrow> span \<times> pyval" where
  "token_attributes usage_data s =
     (case usage_data of
        PDict u \<Rightarrow>
          (let prompt_tokens = dict_get u ''prompt_tokens'' PNone;
               completion_tokens = dict_get u ''completion_tokens'' PNone;
               total_tokens = dict_get u ''total_tokens'' PNone;
               s1 = (if prompt_tokens \<noteq> PNone then set_attribute ''token.usage.prompt'' prompt_tokens s else s);
               s2 = (if completion_tokens \<noteq> PNone
                     then set_attribute ''token.usage.completion'' completion_tokens s1 else s1)
           in if total_tokens \<noteq> PNone
              then (set_attribute ''token.usage.total'' total_tokens s2, total_tokens)
              else (s2, PNone))
      | _ \<Rightarrow> (s, PNone))"

definition extract_output ::
  "(pyval \<Rightarrow> exn + string) \<Rightarrow> pyval \<Rightarrow> span \<Rightarrow> span \<times> (exn + pyval \<times> pyval)" where
  "extract_output dumps result s =
     (case result of
        PStr r \<Rightarrow> (s, Inr (result, PNone))
      | PDict d \<Rightarrow>
          (let output_content = dict_get d ''content'' PNone;
               (s1, token_usage) = token_attributes (dict_get d ''usage'' (PDict [])) s;
               tool_calls = dict_get d ''tool_calls'' PNone
           in case tool_calls of
                PList tc \<Rightarrow>
                  (let s2 = set_attribute ''tool_calls_count'' (PInt (int (length tc))) s1
                   in if \<not> truthy output_content then
                        (case dumps tool_calls of
                           Inl e \<Rightarrow> (s2, Inl e)
                         | Inr js \<Rightarrow> (s2, Inr (PStr (''Tool calls: '' @ take 500 js @ ''...''), token_usage)))
                      else (s2, Inr (output_content, token_usage)))
              | _ \<Rightarrow> (s1, Inr (output_content, token_usage)))
      | PList xs \<Rightarrow>
          (if xs \<noteq> [] \<and> is_dict (last xs) then
             (case last xs of
                PDict m \<Rightarrow>
                  (set_attribute ''messages.returned_count'' (PInt (int (length xs))) s,
                   Inr (dict_get m ''content'' PNone, PNone))
              | _ \<Rightarrow> (s, Inr (PNone, PNone)))
           else (s, Inr (PNone, PNone)))
      | _ \<Rightarrow> (s, Inr (PNone, PNone)))"

text \<open>Lines 177 to 182: each of the three branches sets the same attribute.\<close>

definition status_ok :: "pyval \<Rightarrow> pyval \<Rightarrow> span \<Rightarrow> span" where
  "status_ok token_usage result s =
     (if token_usage \<noteq> PNone then set_attribute ''otel.status_code'' (PStr ''OK'') s
      else if result \<noteq> PNone then set_attribute ''otel.status_code'' (PStr ''OK'') s
      else set_attribute ''otel.status_code'' (PStr ''OK'') s)"

text \<open>
  Lines 129 to 184, the body of the \<open>try\<close>: the awaited call of the original operation is
  the function \<open>original_method\<close>, which returns a value or raises.
\<close>

definition try_body ::
  "(pyval \<Rightarrow> exn + string) \<Rightarrow> (pyval list \<Rightarrow> (string \<rightharpoonup> pyval) \<Rightarrow> exn + pyval) \<Rightarrow>
   pyval list \<Rightarrow> (string \<rightharpoonup> pyval) \<Rightarrow> span \<Rightarrow> span \<times> (exn + pyval)" where
  "try_body dumps original_method args kwargs s =
     (case original_method args kwargs of
        Inl e \<Rightarrow> (s, Inl e)
      | Inr result \<Rightarrow>
          (case extract_output dumps result s of
             (s1, Inl e) \<Rightarrow> (s1, Inl e)
           | (s1, Inr (output_content, token_usage)) \<Rightarrow>
               (if output_content \<noteq> PNone then
                  (case cap_text output_content of
                     Inl e \<Rightarrow> (s1, Inl e)
                   | Inr c \<Rightarrow>
                       (status_ok token_usage result (set_attribute ''message.output.content'' c s1),
                        Inr result))
                else (status_ok token_usage result s1, Inr result))))"

text \<open>Lines 186 to 191: the handler of \<open>except Exception as e\<close>, before its \<open>raise\<close>.\<close>

definition except_handler :: "exn \<Rightarrow> span \<Rightarrow> span" where
  "except_handler e s =
     record_exception e
       (set_attribute ''exception.message'' (PStr (exn_msg e))
         (set_attribute ''exception.type'' (PStr (exn_type e))
           (set_attribute ''otel.status_code'' (PStr ''ERROR'') s)))"

definition try_block ::
  "(pyval \<Rightarrow> exn + string) \<Rightarrow> (pyval list \<Rightarrow> (string \<rightharpoonup> pyval) \<Rightarrow> exn + pyval) \<Rightarrow>
   pyval list \<Rightarrow> (string \<rightharpoonup> pyval) \<Rightarrow> span \<Rightarrow> span \<times> flow" where
  "try_block dumps original_method args kwargs s =
     (case try_body dumps original_method args kwargs s of
        (s1, Inr result) \<Rightarrow> (s1, Return result)
      | (s1, Inl e) \<Rightarrow>
          if isinstance_exn e ''Exception'' then (except_handler e s1, Raise e)
          else (s1, Raise e))"

text \<open>Lines 102 to 191: the body of the \<open>with\<close> block.\<close>

definition with_body ::
  "(pyval \<Rightarrow> string) \<Rightarrow> (pyval \<Rightarrow> exn + string) \<Rightarrow>
   (pyval list \<Rightarrow> (string \<rightharpoonup> pyval) \<Rightarrow> exn + pyval) \<Rightarrow> pyval list \<Rightarrow> (string \<rightharpoonup> pyval) \<Rightarrow>
   pyval \<Rightarrow> pyval \<Rightarrow> pyval \<Rightarrow> pyval \<Rightarrow> span \<Rightarrow> span \<times> flow" where
  "with_body fmt dumps original_method args kwargs agent_name sender messages
     latest_message_content s0 =
     (let s1 = set_attribute ''messaging.operation'' (PStr ''process'') s0;
          s2 = set_attribute ''messaging.destination'' agent_name s1;
          s3 = set_attribute ''ai.agent.name'' agent_name s2;
          s4 = set_attribute ''ai.agent.role'' (PStr (get_agent_role agent_name)) s3
      in case message_type latest_message_content messages of
           Inl e \<Rightarrow> (s4, Raise e)
         | Inr mt \<Rightarrow>
             (let s5 = set_attribute ''messaging.message.type'' (PStr mt) s4
              in case cap_text latest_message_content of
                   Inl e \<Rightarrow> (s5, Raise e)
                 | Inr c \<Rightarrow>
                     (let s6 = set_attribute ''message.input.content'' c s5;
                          s7 = set_attribute ''messaging.sender.name'' (sender_name fmt sender) s6
                      in try_block dumps original_method args kwargs s7)))"

text \<open>
  Line 95: \<open>messages[-1] if messages and isinstance(messages[-1], dict) else {}\<close>.
\<close>

definition latest_message :: "pyval \<Rightarrow> exn + (string \<times> pyval) list" where
  "latest_message messages =
     (if truthy messages then
        (case index_last messages of
           Inl e \<Rightarrow> Inl e
         | Inr (PDict m) \<Rightarrow> Inr m
         | Inr v \<Rightarrow> Inr [])
      else Inr [])"

text \<open>Lines 93 and 94: the sender and the message list, by keyword or by position.\<close>

definition sender_arg :: "pyval list \<Rightarrow> (string \<rightharpoonup> pyval) \<Rightarrow> pyval" where
  "sender_arg args kwargs =
     py_or (kwargs_get kwargs ''sender'') (if length args > 2 then args ! 2 else PNone)"

definition messages_arg :: "pyval list \<Rightarrow> (string \<rightharpoonup> pyval) \<Rightarrow> pyval" where
  "messages_arg args kwargs =
     py_or (kwargs_get kwargs ''messages'') (if length args > 1 then args ! 1 else PList [])"

text \<open>
  Lines 91 to 193: the closure \<open>wrapped_method\<close>, over \<open>agent\<close>, \<open>tracer\<close> and
  \<open>original_method\<close>. It returns the agent as it leaves it, the span it opened (none when
  line 95 raises before the \<open>with\<close>), and the value it returns or the exception it raises.
  The last statement of the closure, \<open>setattr(agent, method_name, wrapped_method)\<close> on
  line 193, stands after the \<open>with\<close> block at the indentation of the closure's body: it
  runs only when the block is left by neither \<open>return\<close> nor \<open>raise\<close>.
\<close>

definition wrapped_method ::
  "(pyval \<Rightarrow> string) \<Rightarrow> (pyval \<Rightarrow> exn + string) \<Rightarrow> agent \<Rightarrow> impl \<Rightarrow>
   (pyval list \<Rightarrow> (string \<rightharpoonup> pyval) \<Rightarrow> exn + pyval) \<Rightarrow> pyval list \<Rightarrow> (string \<rightharpoonup> pyval) \<Rightarrow>
   agent \<times> span option \<times> (exn + pyval)" where
  "wrapped_method fmt dumps agent original original_method args kwargs =
     (let sender = sender_arg args kwargs;
          messages = messages_arg args kwargs
      in case latest_message messages of
           Inl e \<Rightarrow> (agent, None, Inl e)
         | Inr m \<Rightarrow>
             (let latest_message_content = dict_get m ''content'' (PStr []);
                  agent_name = (case name_attr agent of Some n \<Rightarrow> n | None \<Rightarrow> PStr (type_name agent));
                  span_name = ''messaging.process '' @ py_str fmt agent_name
              in case with_body fmt dumps original_method args kwargs agent_name sender messages
                        latest_message_content (start_span span_name CONSUMER) of
                   (s, Return result) \<Rightarrow> (agent, Some (exit_span None s), Inr result)
                 | (s, Raise e) \<Rightarrow> (agent, Some (exit_span (Some e) s), Inl e)
                 | (s, FallThrough) \<Rightarrow>
                     (agent\<lparr>on_messages := Some (Coroutine (Instrumented original))\<rparr>,
                      Some (exit_span None s), Inr PNone)))"

text \<open>
  Lines 83 to 91: \<open>wrap_agent_with_telemetry\<close>. It checks the attribute, reads the original
  operation, defines the closure and returns \<open>None\<close>; it has no other statement. The result
  is the exception raised or the unit value, and the agent as the call leaves it.
\<close>

definition hasattr_on_messages :: "agent \<Rightarrow> bool" where
  "hasattr_on_messages agent = (on_messages agent \<noteq> None)"

definition iscoroutinefunction :: "attr option \<Rightarrow> bool" where
  "iscoroutinefunction a = (case a of Some (Coroutine f) \<Rightarrow> True | _ \<Rightarrow> False)"

definition unsupported_target :: "agent \<Rightarrow> exn" where
  "unsupported_target agent =
     builtin_error ''TypeError''
       (''Object '' @ type_name agent @
        '' does not have an async 'on_messages' method and cannot be wrapped.'')"

definition wrap_agent_with_telemetry :: "agent \<Rightarrow> (exn + unit) \<times> agent" where
  "wrap_agent_with_telemetry agent =
     (if \<not> hasattr_on_messages agent \<or> \<not> iscoroutinefunction (on_messages agent)
      then (Inl (unsupported_target agent), agent)
      else (Inr (), agent))"

section \<open>agents.py: the two tool functions\<close>

text \<open>
  The process environment is a map from variable names to their values. An external
  call is a request; what the network does with it is a parameter of each tool. A tool
  run gives the spans it finished (in the order they end), the requests it issued, and the
  string it returns or the exception that leaves it.
\<close>

record request =
  url :: string
  params :: "(string \<times> pyval) list"
  timeout :: nat

text \<open>
  A response of \<open>requests.get\<close>, by what its two methods do: \<open>raise_for_status()\<close> raises or
  not, \<open>json()\<close> returns the decoded body or raises.
\<close>

record response =
  raise_for_status :: "exn option"
  json :: "exn + pyval"

record tool_run =
  finished :: "span list"
  calls :: "request list"
  outcome :: "exn + string"

text \<open>\<open>x[k]\<close> for a string key, and the method call \<open>x.get(k, default)\<close>.\<close>

fun py_getitem :: "pyval \<Rightarrow> string \<Rightarrow> exn + pyval" where
  "py_getitem (PDict kvs) k =
     (case map_of (rev kvs) k of
        Some v \<Rightarrow> Inr v
      | None \<Rightarrow> Inl (Exn ''KeyError'' [''LookupError'', ''Exception'', ''BaseException'']
                      ([CHR 0x27] @ k @ [CHR 0x27]) 0))"
| "py_getitem (PList xs) k = Inl (builtin_error ''TypeError'' ''list indices must be integers'')"
| "py_getitem (PStr s) k = Inl (builtin_error ''TypeError'' ''string indices must be integers'')"
| "py_getitem v k = Inl (builtin_error ''TypeError'' ''object is not subscriptable'')"

fun py_get :: "pyval \<Rightarrow> string \<Rightarrow> pyval \<Rightarrow> exn + pyval" where
  "py_get (PDict kvs) k dflt = Inr (dict_get kvs k dflt)"
| "py_get v k dflt = Inl (builtin_error ''AttributeError'' ''object has no attribute get'')"

subsection \<open>weather\_tool\<close>

text \<open>
  Lines 28 to 38, the body of the \<open>try\<close>. The degree sign of the source text is the two
  code points 0xC2 and 0xB0.
\<close>

definition weather_fields :: "pyval \<Rightarrow> exn + pyval \<times> pyval" where
  "weather_fields data =
     (case py_getitem data ''current'' of
        Inl e \<Rightarrow> Inl e
      | Inr cur \<Rightarrow>
          (case py_getitem cur ''temp_c'' of
             Inl e \<Rightarrow> Inl e
           | Inr temp \<Rightarrow>
               (case py_getitem cur ''condition'' of
                  Inl e \<Rightarrow> Inl e
                | Inr cond \<Rightarrow>
                    (case py_getitem cond ''text'' of
                       Inl e \<Rightarrow> Inl e
                     | Inr condition \<Rightarrow> Inr (temp, condition)))))"

definition weather_request :: "string \<Rightarrow> string \<Rightarrow> request" where
  "weather_request config_key city =
     \<lparr>url = ''http://api.weatherapi.com/v1/current.json'',
      params = [(''key'', PStr config_key), (''q'', PStr city), (''aqi'', PStr ''no'')],
      timeout = 10\<rparr>"

definition weather_try ::
  "(pyval \<Rightarrow> string) \<Rightarrow> (request \<Rightarrow> exn + response) \<Rightarrow> string \<Rightarrow> string \<Rightarrow> span \<Rightarrow>
   span \<times> (exn + string)" where
  "weather_try fmt http_get config_key city s =
     (case http_get (weather_request config_key city) of
        Inl e \<Rightarrow> (s, Inl e)
      | Inr res \<Rightarrow>
          (case raise_for_status res of
             Some e \<Rightarrow> (s, Inl e)
           | None \<Rightarrow>
               (case json res of
                  Inl e \<Rightarrow> (s, Inl e)
                | Inr data \<Rightarrow>
                    (case weather_fields data of
                       Inl e \<Rightarrow> (s, Inl e)
                     | Inr (temp, condition) \<Rightarrow>
                         (let result = ''The current weather in '' @ city @ '' is '' @
                                py_str fmt condition @ '' with a temperature of '' @
                                py_str fmt temp @ [CHR 0xC2, CHR 0xB0] @ ''C.'';
                              s1 = set_attribute ''otel.status_code'' (PStr ''OK'') s;
                              s2 = set_attribute ''weather.temperature_c'' temp s1;
                              s3 = set_attribute ''weather.condition'' condition s2;
                              s4 = set_attribute ''tool.output'' (PStr result) s3
                          in (s4, Inr result))))))"

text \<open>Lines 39 to 52: the two handlers; an exception that matches neither leaves the tool.\<close>

definition weather_except :: "string \<Rightarrow> exn \<Rightarrow> span \<Rightarrow> span \<times> string" where
  "weather_except prefix e s =
     (let error_msg = prefix @ exn_msg e;
          s1 = set_attribute ''otel.status_code'' (PStr ''ERROR'') s;
          s2 = set_attribute ''exception.type'' (PStr (exn_type e)) s1;
          s3 = set_attribute ''error.message'' (PStr error_msg) s2
      in (record_exception e s3, error_msg))"

text \<open>
  Lines 14 to 52. Line 17, the read of the environment, is a comment in the source; line 18
  binds the key to a literal. The environment is a parameter all the same: it is the state
  the properties about the credential speak of.
\<close>

definition weather_tool ::
  "(pyval \<Rightarrow> string) \<Rightarrow> (string \<rightharpoonup> string) \<Rightarrow> (request \<Rightarrow> exn + response) \<Rightarrow> string \<Rightarrow> tool_run" where
  "weather_tool fmt env http_get city =
     (let s0 = set_attribute ''weather.city'' (PStr city) (start_span ''tool.weather_tool'' CLIENT);
          config_key = ''45408d486ba24acb91c44416253004''
      in if config_key = [] then
           (let s1 = set_attribute ''otel.status_code'' (PStr ''ERROR'') s0;
                s2 = set_attribute ''error.message'' (PStr ''WEATHER_API_APIKEY not set'') s1
            in \<lparr>finished = [end_span s2], calls = [], outcome = Inr ''Error: WEATHER_API_APIKEY not set''\<rparr>)
         else
           (case weather_try fmt http_get config_key city s0 of
              (s, Inr result) \<Rightarrow>
                \<lparr>finished = [end_span s], calls = [weather_request config_key city], outcome = Inr result\<rparr>
            | (s, Inl e) \<Rightarrow>
                if isinstance_exn e ''RequestException'' then
                  (case weather_except ''Weather tool request error: '' e s of
                     (s', error_msg) \<Rightarrow>
                       \<lparr>finished = [end_span s'], calls = [weather_request config_key city],
                        outcome = Inr error_msg\<rparr>)
                else if isinstance_exn e ''Exception'' then
                  (case weather_except ''Weather tool error: '' e s of
                     (s', error_msg) \<Rightarrow>
                       \<lparr>finished = [end_span s'], calls = [weather_request config_key city],
                        outcome = Inr error_msg\<rparr>)
                else
                  \<lparr>finished = [end_span s], calls = [weather_request config_key city], outcome = Inl e\<rparr>))"

subsection \<open>web\_search\<close>

text \<open>\<open>organic_results[:3]\<close>, as the sequence the loop runs over.\<close>

fun slice_top :: "nat \<Rightarrow> pyval \<Rightarrow> exn + pyval list" where
  "slice_top n (PList xs) = Inr (take n xs)"
| "slice_top n (PStr s) = Inr (map (\<lambda>c. PStr [c]) (take n s))"
| "slice_top n (PDict kvs) = Inl (builtin_error ''TypeError'' ''unhashable type: slice'')"
| "slice_top n v = Inl (builtin_error ''TypeError'' ''object is not subscriptable'')"

text \<open>\<open>x[:100] + '...' if len(x) > 100 else x\<close>\<close>

definition cap_snippet :: "pyval \<Rightarrow> exn + pyval" where
  "cap_snippet v =
     (case py_len v of
        Inl e \<Rightarrow> Inl e
      | Inr n \<Rightarrow>
          if n > 100 then
            (case v of
               PStr s \<Rightarrow> Inr (PStr (take 100 s @ ''...''))
             | PList xs \<Rightarrow> Inl (builtin_error ''TypeError'' ''can only concatenate list to list'')
             | _ \<Rightarrow> Inl (builtin_error ''TypeError'' ''unhashable type: slice''))
          else Inr v)"

text \<open>Lines 86 to 91: the loop over the top results, numbered from \<open>i\<close>.\<close>

fun results_loop ::
  "(pyval \<Rightarrow> string) \<Rightarrow> nat \<Rightarrow> pyval list \<Rightarrow> string \<Rightarrow> span \<Rightarrow> span \<times> (exn + string)" where
  "results_loop fmt i [] output s = (s, Inr output)"
| "results_loop fmt i (r # rs) output s =
     (case py_get r ''title'' (PStr ''No Title'') of
        Inl e \<Rightarrow> (s, Inl e)
      | Inr title \<Rightarrow>
          (case py_get r ''snippet'' (PStr []) of
             Inl e \<Rightarrow> (s, Inl e)
           | Inr snippet \<Rightarrow>
               (case py_get r ''link'' (PStr ''No Link'') of
                  Inl e \<Rightarrow> (s, Inl e)
                | Inr link \<Rightarrow>
                    (let output' = output @ show_nat i @ ''. '' @ py_str fmt title @ '': '' @
                           py_str fmt snippet @ [CHR 0x0A]
                     in case cap_snippet snippet of
                          Inl e \<Rightarrow> (s, Inl e)
                        | Inr sn \<Rightarrow>
                            results_loop fmt (Suc i) rs output'
                              (add_event (''result_'' @ show_nat i)
                                 [(''title'', title), (''snippet'', sn), (''link'', link)] s)))))"

definition search_params :: "string \<Rightarrow> string \<Rightarrow> (string \<times> pyval) list" where
  "search_params query serp_api_key =
     [(''q'', PStr query), (''api_key'', PStr serp_api_key), (''location'', PStr ''Earth''),
      (''hl'', PStr ''en''), (''gl'', PStr ''in''), (''num'', PInt 3)]"

definition search_request :: "string \<Rightarrow> string \<Rightarrow> request" where
  "search_request query serp_api_key =
     \<lparr>url = ''GoogleSearch'', params = search_params query serp_api_key, timeout = 0\<rparr>"

text \<open>Lines 80 to 97: from the response to the returned text.\<close>

definition search_output ::
  "(pyval \<Rightarrow> string) \<Rightarrow> string \<Rightarrow> pyval \<Rightarrow> span \<Rightarrow> span \<times> (exn + string)" where
  "search_output fmt query results s =
     (let output0 = ''Search results for ''  @ [CHR 0x27] @ query @ [CHR 0x27] @ '':'' @ [CHR 0x0A]
      in case py_get results ''organic_results'' (PList []) of
           Inl e \<Rightarrow> (s, Inl e)
         | Inr organic_results \<Rightarrow>
             (case
                (if \<not> truthy organic_results then
                   (set_attribute ''search.results_count'' (PInt 0) s, Inr ''No results found.'')
                 else
                   (case slice_top 3 organic_results of
                      Inl e \<Rightarrow> (s, Inl e)
                    | Inr top_results \<Rightarrow>
                        (case results_loop fmt 1 top_results output0 s of
                           (s1, Inl e) \<Rightarrow> (s1, Inl e)
                         | (s1, Inr output) \<Rightarrow>
                             (case py_len organic_results of
                                Inl e \<Rightarrow> (s1, Inl e)
                              | Inr n \<Rightarrow>
                                  (set_attribute ''search.results_count'' (PInt (int n)) s1,
                                   Inr output)))))
              of
                (s2, Inl e) \<Rightarrow> (s2, Inl e)
              | (s2, Inr output) \<Rightarrow>
                  (let s3 = set_attribute ''otel.status_code'' (PStr ''OK'') s2;
                       s4 = set_attribute ''tool.output_summary''
                              (PStr (if length output > 500 then take 500 output @ ''...'' else output)) s3
                   in (s4, Inr output))))"

text \<open>
  Lines 54 to 105. The blocking call \<open>search.get_dict\<close>, awaited in an executor inside a span
  of its own, is the parameter \<open>get_dict\<close>: it returns the response or raises. Building
  the search object and fetching the running loop (lines 74 and 75) raise nothing inside
  a coroutine.
\<close>

definition web_search ::
  "(pyval \<Rightarrow> string) \<Rightarrow> (string \<rightharpoonup> string) \<Rightarrow> (request \<Rightarrow> exn + pyval) \<Rightarrow> string \<Rightarrow> tool_run" where
  "web_search fmt env get_dict query =
     (let s0 = set_attribute ''search.query'' (PStr query) (start_span ''tool.web_search'' CLIENT)
      in case env ''SERP_API_KEY'' of
           None \<Rightarrow>
             (let error_msg = ''Error: SERP_API_KEY not configured.'';
                  s1 = set_attribute ''otel.status_code'' (PStr ''ERROR'') s0;
                  s2 = set_attribute ''error.message'' (PStr error_msg) s1
              in \<lparr>finished = [end_span s2], calls = [], outcome = Inr error_msg\<rparr>)
         | Some serp_api_key \<Rightarrow>
             if serp_api_key = [] then
               (let error_msg = ''Error: SERP_API_KEY not configured.'';
                    s1 = set_attribute ''otel.status_code'' (PStr ''ERROR'') s0;
                    s2 = set_attribute ''error.message'' (PStr error_msg) s1
                in \<lparr>finished = [end_span s2], calls = [], outcome = Inr error_msg\<rparr>)
             else
               (let inner = end_span (start_span ''GoogleSearch.get_dict'' INTERNAL);
                    req = search_request query serp_api_key
                in case
                     (case get_dict req of
                        Inl e \<Rightarrow> (s0, Inl e)
                      | Inr results \<Rightarrow> search_output fmt query results s0)
                   of
                     (s, Inr output) \<Rightarrow>
                       \<lparr>finished = [inner, end_span s], calls = [req], outcome = Inr output\<rparr>
                   | (s, Inl e) \<Rightarrow>
                       if isinstance_exn e ''Exception'' then
                         (let error_msg = ''Web search error: '' @ exn_msg e;
                              s1 = set_attribute ''otel.status_code'' (PStr ''ERROR'') s;
                              s2 = set_attribute ''exception.type'' (PStr (exn_type e)) s1;
                              s3 = set_attribute ''exception.message'' (PStr error_msg) s2
                          in \<lparr>finished = [inner, end_span (record_exception e s3)], calls = [req],
                              outcome = Inr error_msg\<rparr>)
                       else \<lparr>finished = [inner, end_span s], calls = [req], outcome = Inl e\<rparr>))"

section \<open>telemetry\_wrapper.py: the file exporter\<close>

subsection \<open>Timestamps\<close>

text \<open>
  Line 57 divides the integer of nanoseconds by the float \<open>1e9\<close> and hands the quotient to
  \<open>datetime.fromtimestamp\<close>. A finite binary64 value is a pair \<open>(m, e)\<close> of integers and
  stands for \<open>m * 2 ^ e\<close>. \<open>nearest_double a b\<close> is the binary64 value nearest to the
  quotient \<open>a / b\<close> of a natural number and a positive one (ties to the even significand of
  53 bits). The magnitudes met here stay in the normal range of the format.
\<close>

type_synonym double = "int \<times> int"

function bit_length :: "int \<Rightarrow> int" where
  "bit_length n = (if n \<le> 0 then 0 else 1 + bit_length (n div 2))"
  by pat_completeness auto
termination
  by (relation "measure nat") auto

declare bit_length.simps [simp del]

text \<open>\<open>2 ^ e\<close> for an exponent that is not negative, else 1.\<close>

definition pow2 :: "int \<Rightarrow> int" where
  "pow2 e = (if 0 \<le> e then 2 ^ nat e else 1)"

text \<open>The quotient \<open>a / (b * 2 ^ e)\<close> rounded to the nearest integer, ties to the even one.\<close>

definition scaled_round :: "int \<Rightarrow> int \<Rightarrow> int \<Rightarrow> int" where
  "scaled_round a b e =
     (let n = a * pow2 (- e);
          d = b * pow2 e;
          q = n div d;
          r = n mod d
      in if 2 * r < d then q else if d < 2 * r then q + 1 else if even q then q else q + 1)"

definition nearest_double :: "int \<Rightarrow> int \<Rightarrow> double" where
  "nearest_double a b =
     (if a = 0 then (0, 0)
      else
        (let e0 = bit_length a - bit_length b;
             fl = (if a * pow2 (- e0) < b * pow2 e0 then e0 - 1 else e0);
             e = fl - 52
         in (scaled_round a b e, e)))"

text \<open>
  \<open>timestamp_ns / 1e9\<close>: the integer is converted to a float first (an integer too large for
  the format raises), then divided.
\<close>

definition true_div_1e9 :: "int \<Rightarrow> exn + double" where
  "true_div_1e9 timestamp_ns =
     (let (m, e) = nearest_double \<bar>timestamp_ns\<bar> 1
      in if 971 < e \<or> (e = 971 \<and> 2 ^ 53 \<le> m)
         then Inl (Exn ''OverflowError'' [''ArithmeticError'', ''Exception'', ''BaseException'']
                     ''int too large to convert to float'' 0)
         else
           (let (m', e') = nearest_double (m * pow2 e) (1000000000 * pow2 (- e))
            in Inr (if timestamp_ns < 0 then - m' else m', e')))"

record datetime =
  year :: int
  month :: int
  day :: int
  hour :: int
  minute :: int
  second :: int
  microsecond :: int

definition days_before_month :: "int \<Rightarrow> int" where
  "days_before_month m = [0, 0, 31, 59, 90, 120, 151, 181, 212, 243, 273, 304, 334] ! nat m"

definition days_in_month :: "int \<Rightarrow> int" where
  "days_in_month m = [0, 31, 28, 31, 30, 31, 30, 31, 31, 30, 31, 30, 31] ! nat m"

definition is_leap :: "int \<Rightarrow> bool" where
  "is_leap y = (y mod 4 = 0 \<and> (y mod 100 \<noteq> 0 \<or> y mod 400 = 0))"

text \<open>Year, month and day of a day number, where day 1 is the first of January of year 1.\<close>

definition ord2ymd :: "int \<Rightarrow> int \<times> int \<times> int" where
  "ord2ymd ordinal =
     (let n = ordinal - 1;
          n400 = n div 146097; na = n mod 146097;
          n100 = na div 36524; nb = na mod 36524;
          n4 = nb div 1461; nc = nb mod 1461;
          n1 = nc div 365; nd = nc mod 365;
          y = n400 * 400 + 1 + n100 * 100 + n4 * 4 + n1
      in if n1 = 4 \<or> n100 = 4 then (y - 1, 12, 31)
         else
           (let leapyear = (n1 = 3 \<and> (n4 \<noteq> 24 \<or> n100 = 3));
                m = (nd + 50) div 32;
                preceding = days_before_month m + (if 2 < m \<and> leapyear then 1 else 0)
            in if nd < preceding then
                 (let m' = m - 1;
                      preceding' = preceding - (days_in_month m' + (if m' = 2 \<and> leapyear then 1 else 0))
                  in (y, m', nd - preceding' + 1))
               else (y, m, nd - preceding + 1)))"

text \<open>The constructor of \<open>datetime\<close> refuses a field out of its range.\<close>

definition new_datetime :: "int \<Rightarrow> int \<Rightarrow> int \<Rightarrow> int \<Rightarrow> int \<Rightarrow> int \<Rightarrow> int \<Rightarrow> exn + datetime" where
  "new_datetime y mo d h mi s us =
     (if 1 \<le> y \<and> y \<le> 9999 \<and> 1 \<le> mo \<and> mo \<le> 12 \<and> 1 \<le> d \<and>
         d \<le> days_in_month mo + (if mo = 2 \<and> is_leap y then 1 else 0) \<and>
         0 \<le> h \<and> h < 24 \<and> 0 \<le> mi \<and> mi < 60 \<and> 0 \<le> s \<and> s < 60 \<and> 0 \<le> us \<and> us < 1000000
      then Inr \<lparr>year = y, month = mo, day = d, hour = h, minute = mi, second = s, microsecond = us\<rparr>
      else Inl (builtin_error ''ValueError'' ''field out of range''))"

text \<open>
  \<open>datetime.fromtimestamp(t, tz=timezone.utc)\<close> for a float \<open>t\<close>: the float is split into
  its whole seconds and its fraction, the fraction times \<open>1e6\<close> is rounded to a float and
  then to the nearest integer of microseconds (ties to even), and a carry or a borrow moves
  into the seconds. Day 719163 is the first of January 1970.
\<close>

definition fromtimestamp_utc :: "double \<Rightarrow> exn + datetime" where
  "fromtimestamp_utc t =
     (let (m, e) = t;
          whole = \<bar>m\<bar> * pow2 e div pow2 (- e);
          frac = \<bar>m\<bar> * pow2 e mod pow2 (- e);
          (m2, e2) = nearest_double (frac * 1000000) (pow2 (- e));
          rounded = scaled_round m2 1 (- e2);
          intpart = (if m < 0 then - whole else whole);
          floatpart = (if m < 0 then - rounded else rounded);
          (secs, us) = (if 1000000 \<le> floatpart then (intpart + 1, floatpart - 1000000)
                        else if floatpart < 0 then (intpart - 1, floatpart + 1000000)
                        else (intpart, floatpart))
      in if secs < - (2 ^ 63) \<or> 2 ^ 63 \<le> secs
         then Inl (Exn ''OverflowError'' [''ArithmeticError'', ''Exception'', ''BaseException'']
                     ''timestamp out of range for platform time_t'' 0)
         else
           (let days = secs div 86400;
                rem = secs mod 86400;
                (y, mo, d) = ord2ymd (days + 719163)
            in new_datetime y mo d (rem div 3600) (rem mod 3600 div 60) (rem mod 60) us))"

text \<open>\<open>'%0wd' % n\<close> for a number that is not negative.\<close>

definition zero_pad :: "nat \<Rightarrow> string \<Rightarrow> string" where
  "zero_pad w ds = replicate (w - length ds) (CHR ''0'') @ ds"

definition pad_int :: "nat \<Rightarrow> int \<Rightarrow> string" where
  "pad_int w n = zero_pad w (show_nat (nat n))"

text \<open>
  \<open>dt.isoformat()\<close> for a datetime in UTC: the fraction of the second is printed only when
  the microseconds are not zero.
\<close>

definition isoformat :: "datetime \<Rightarrow> string" where
  "isoformat dt =
     pad_int 4 (year dt) @ ''-'' @ pad_int 2 (month dt) @ ''-'' @ pad_int 2 (day dt) @ ''T'' @
     pad_int 2 (hour dt) @ '':'' @ pad_int 2 (minute dt) @ '':'' @ pad_int 2 (second dt) @
     (if microsecond dt \<noteq> 0 then ''.'' @ pad_int 6 (microsecond dt) else []) @ ''+00:00''"

text \<open>\<open>s.replace(old, new)\<close> for a pattern \<open>old\<close> that is not empty.\<close>

function py_replace :: "string \<Rightarrow> string \<Rightarrow> string \<Rightarrow> string" where
  "py_replace old new [] = []"
| "py_replace old new (c # s) =
     (if is_prefix old (c # s) then new @ py_replace old new (drop (length old - 1) s)
      else c # py_replace old new s)"
  by pat_completeness auto
termination
  by (relation "measure (\<lambda>(old, new, s). length s)") auto

text \<open>\<open>_format_timestamp\<close>, lines 56 to 58: line 57 builds the datetime, line 58 prints it.\<close>

definition timestamp_datetime :: "int \<Rightarrow> exn + datetime" where
  "timestamp_datetime timestamp_ns =
     (case true_div_1e9 timestamp_ns of
        Inl e \<Rightarrow> Inl e
      | Inr t \<Rightarrow> fromtimestamp_utc t)"

definition format_timestamp :: "int \<Rightarrow> exn + string" where
  "format_timestamp timestamp_ns =
     (case timestamp_datetime timestamp_ns of
        Inl e \<Rightarrow> Inl e
      | Inr dt \<Rightarrow> Inr (py_replace ''+00:00'' ''Z'' (isoformat dt)))"

subsection \<open>Identifiers\<close>

text \<open>\<open>format(x, '0wx')\<close> for a number that is not negative: lowercase, padded to \<open>w\<close> digits.\<close>

definition hex_char :: "nat \<Rightarrow> char" where
  "hex_char d = ''0123456789abcdef'' ! d"

fun hex_digits :: "nat \<Rightarrow> string" where
  "hex_digits n = (if n < 16 then [hex_char n] else hex_digits (n div 16) @ [hex_char (n mod 16)])"

declare hex_digits.simps [simp del]

definition format_hex :: "nat \<Rightarrow> nat \<Rightarrow> string" where
  "format_hex w n = zero_pad w (hex_digits n)"

subsection \<open>The span records and their JSON text\<close>

text \<open>
  The values a span record holds, all of which \<open>json.dump\<close> encodes: the attribute values
  of a finished span are scalars or sequences of scalars.
\<close>

datatype jsonv =
    JNull
  | JBool bool
  | JInt int
  | JStr string
  | JList "jsonv list"
  | JObj "(string \<times> jsonv) list"

text \<open>A finished span, as the SDK hands it to the exporter.\<close>

record span_context_data =
  trace_id :: "128 word"
  span_id :: "64 word"

record event =
  event_name :: string
  timestamp :: int
  event_attributes :: "(string \<times> jsonv) list option"

record status_data =
  status_code :: status_code
  description :: "string option"

record scope =
  scope_name :: string
  version :: "string option"
  schema_url :: "string option"

text \<open>
  The resource of a span is absent, or an object whose \<open>attributes\<close> is a dict or some
  other mapping; the instrumentation scope is an \<open>InstrumentationScope\<close> or not.
\<close>

datatype resource_data = NoResource | DictAttributes "(string \<times> jsonv) list" | OtherAttributes

record span_data =
  name :: string
  span_context :: span_context_data
  parent :: "span_context_data option"
  start_time :: int
  end_time :: int
  data_attributes :: "(string \<times> jsonv) list option"
  data_events :: "event list"
  status :: status_data
  data_kind :: span_kind
  resource :: resource_data
  instrumentation_scope :: "scope option"

fun kind_name :: "span_kind \<Rightarrow> string" where
  "kind_name INTERNAL = ''INTERNAL''"
| "kind_name SERVER = ''SERVER''"
| "kind_name CLIENT = ''CLIENT''"
| "kind_name PRODUCER = ''PRODUCER''"
| "kind_name CONSUMER = ''CONSUMER''"

fun status_code_name :: "status_code \<Rightarrow> string" where
  "status_code_name UNSET = ''UNSET''"
| "status_code_name OK = ''OK''"
| "status_code_name ERROR = ''ERROR''"

definition opt_str :: "string option \<Rightarrow> jsonv" where
  "opt_str s = (case s of None \<Rightarrow> JNull | Some t \<Rightarrow> JStr t)"

definition or_empty :: "(string \<times> jsonv) list option \<Rightarrow> jsonv" where
  "or_empty a = (case a of None \<Rightarrow> JObj [] | Some kvs \<Rightarrow> JObj kvs)"

text \<open>Lines 29 to 35: the list of event records; a timestamp out of range raises.\<close>

fun event_dicts :: "event list \<Rightarrow> exn + jsonv list" where
  "event_dicts [] = Inr []"
| "event_dicts (ev # evs) =
     (case format_timestamp (timestamp ev) of
        Inl e \<Rightarrow> Inl e
      | Inr ts \<Rightarrow>
          (case event_dicts evs of
             Inl e \<Rightarrow> Inl e
           | Inr ds \<Rightarrow>
               Inr (JObj [(''name'', JStr (event_name ev)), (''timestamp'', JStr ts),
                          (''attributes'', or_empty (event_attributes ev))] # ds)))"

text \<open>Lines 20 to 47: the record built for one span.\<close>

definition span_dict :: "span_data \<Rightarrow> exn + (string \<times> jsonv) list" where
  "span_dict sd =
     (case format_timestamp (start_time sd) of
        Inl e \<Rightarrow> Inl e
      | Inr st \<Rightarrow>
          (case format_timestamp (end_time sd) of
             Inl e \<Rightarrow> Inl e
           | Inr et \<Rightarrow>
               (case event_dicts (data_events sd) of
                  Inl e \<Rightarrow> Inl e
                | Inr evs \<Rightarrow>
                    Inr [(''name'', JStr (name sd)),
                         (''trace_id'', JStr (format_hex 32 (unat (trace_id (span_context sd))))),
                         (''span_id'', JStr (format_hex 16 (unat (span_id (span_context sd))))),
                         (''parent_id'',
                            (case parent sd of
                               Some p \<Rightarrow> JStr (format_hex 16 (unat (span_id p)))
                             | None \<Rightarrow> JNull)),
                         (''start_time'', JStr st),
                         (''end_time'', JStr et),
                         (''duration_ns'', JInt (end_time sd - start_time sd)),
                         (''attributes'', or_empty (data_attributes sd)),
                         (''events'', JList evs),
                         (''status'',
                            JObj [(''status_code'', JStr (status_code_name (status_code (status sd)))),
                                  (''description'', opt_str (description (status sd)))]),
                         (''kind'', JStr (kind_name (data_kind sd))),
                         (''resource'',
                            (case resource sd of DictAttributes kvs \<Rightarrow> JObj kvs | _ \<Rightarrow> JObj [])),
                         (''instrumentation_scope'',
                            (case instrumentation_scope sd of
                               Some sc \<Rightarrow>
                                 JObj [(''name'', JStr (scope_name sc)),
                                       (''version'', opt_str (version sc)),
                                       (''schema_url'', opt_str (schema_url sc))]
                             | None \<Rightarrow> JObj []))])))"

text \<open>
  The exporter object, and \<open>export\<close>, lines 18 to 49: records are appended one by one, so a
  span whose record raises leaves the earlier ones in the buffer.
\<close>

record exporter =
  file_path :: string
  spans :: "jsonv list"

fun export :: "exporter \<Rightarrow> span_data list \<Rightarrow> (exn + bool) \<times> exporter" where
  "export self [] = (Inr True, self)"
| "export self (sd # rest) =
     (case span_dict sd of
        Inl e \<Rightarrow> (Inl e, self)
      | Inr d \<Rightarrow> export (self\<lparr>spans := spans self @ [JObj d]\<rparr>) rest)"

subsection \<open>json.dump with indent=2\<close>

text \<open>
  A string literal of JSON with \<open>ensure_ascii\<close>: the quote, the backslash and the control
  characters have their escapes, every other character outside the printable ASCII range
  is written \<open>\\u00xx\<close>.
\<close>

definition json_escape :: "char \<Rightarrow> string" where
  "json_escape c =
     (if c = CHR 0x22 then [CHR 0x5C, CHR 0x22]
      else if c = CHR 0x5C then [CHR 0x5C, CHR 0x5C]
      else if c = CHR 0x0A then [CHR 0x5C, CHR ''n'']
      else if c = CHR 0x0D then [CHR 0x5C, CHR ''r'']
      else if c = CHR 0x09 then [CHR 0x5C, CHR ''t'']
      else if c = CHR 0x08 then [CHR 0x5C, CHR ''b'']
      else if c = CHR 0x0C then [CHR 0x5C, CHR ''f'']
      else if of_char c < (32 :: nat) \<or> (126 :: nat) < of_char c
        then [CHR 0x5C, CHR ''u''] @ format_hex 4 (of_char c)
      else [c])"

definition json_string :: "string \<Rightarrow> string" where
  "json_string s = [CHR 0x22] @ concat (map json_escape s) @ [CHR 0x22]"

fun join :: "string \<Rightarrow> string list \<Rightarrow> string" where
  "join sep [] = []"
| "join sep [x] = x"
| "join sep (x # y # ys) = x @ sep @ join sep (y # ys)"

definition newline_indent :: "nat \<Rightarrow> string" where
  "newline_indent level = CHR 0x0A # replicate (2 * level) (CHR '' '')"

fun json_text :: "nat \<Rightarrow> jsonv \<Rightarrow> string" where
  "json_text level JNull = ''null''"
| "json_text level (JBool b) = (if b then ''true'' else ''false'')"
| "json_text level (JInt i) = show_int i"
| "json_text level (JStr s) = json_string s"
| "json_text level (JList xs) =
     (if xs = [] then ''[]''
      else ''['' @ newline_indent (Suc level) @
           join ('','' @ newline_indent (Suc level)) (map (json_text (Suc level)) xs) @
           newline_indent level @ '']'')"
| "json_text level (JObj kvs) =
     (if kvs = [] then ''{}''
      else ''{'' @ newline_indent (Suc level) @
           join ('','' @ newline_indent (Suc level))
             (map (\<lambda>kv. json_string (fst kv) @ '': '' @ json_text (Suc level) (snd kv)) kvs) @
           newline_indent level @ ''}'')"

text \<open>
  \<open>shutdown\<close>, lines 51 to 54. The file system is a store from paths to contents; opening a
  path for writing replaces what it held.
\<close>

definition shutdown :: "exporter \<Rightarrow> (string \<rightharpoonup> string) \<Rightarrow> exporter \<times> (string \<rightharpoonup> string)" where
  "shutdown self fs =
     (self\<lparr>spans := []\<rparr>, fs(file_path self \<mapsto> json_text 0 (JList (spans self))))"

section \<open>Predicates of the statements\<close>

text \<open>
  The shapes the properties below speak of. \<open>matches p s\<close>: the text \<open>s\<close> has the shape
  \<open>p\<close>, where the letter \<open>d\<close> of the shape stands for a decimal digit and every other
  character for itself.
\<close>

definition is_digit :: "char \<Rightarrow> bool" where
  "is_digit c = (c \<in> set ''0123456789'')"

fun matches :: "string \<Rightarrow> string \<Rightarrow> bool" where
  "matches [] [] = True"
| "matches (p # ps) (c # cs) = ((if p = CHR ''d'' then is_digit c else c = p) \<and> matches ps cs)"
| "matches [] (c # cs) = False"
| "matches (p # ps) [] = False"

definition is_lower_hex :: "string \<Rightarrow> bool" where
  "is_lower_hex s = list_all (\<lambda>c. c \<in> set ''0123456789abcdef'') s"

text \<open>
  The shape of the record \<open>d\<close> emitted for the span \<open>sd\<close>: the identifiers are lowercase
  hexadecimal of 32 and 16 characters, the parent is such an identifier or null, the
  duration is the difference of the two times, and each time is printed in UTC with the
  suffix \<open>Z\<close>, with six digits of fraction unless the microseconds of the datetime are
  zero.
\<close>

definition hex_field :: "nat \<Rightarrow> jsonv option \<Rightarrow> bool" where
  "hex_field w v = (case v of Some (JStr t) \<Rightarrow> length t = w \<and> is_lower_hex t | _ \<Rightarrow> False)"

definition time_field :: "int \<Rightarrow> jsonv option \<Rightarrow> bool" where
  "time_field timestamp_ns v =
     (case v of
        Some (JStr t) \<Rightarrow>
          (case timestamp_datetime timestamp_ns of
             Inl e \<Rightarrow> False
           | Inr dt \<Rightarrow>
               matches (if microsecond dt = 0 then ''dddd-dd-ddTdd:dd:ddZ''
                        else ''dddd-dd-ddTdd:dd:dd.ddddddZ'') t)
      | _ \<Rightarrow> False)"

definition record_shape :: "span_data \<Rightarrow> jsonv \<Rightarrow> bool" where
  "record_shape sd r =
     (case r of
        JObj d \<Rightarrow>
          hex_field 32 (map_of d ''trace_id'') \<and>
          hex_field 16 (map_of d ''span_id'') \<and>
          (map_of d ''parent_id'' = Some JNull \<or> hex_field 16 (map_of d ''parent_id'')) \<and>
          map_of d ''duration_ns'' = Some (JInt (end_time sd - start_time sd)) \<and>
          time_field (start_time sd) (map_of d ''start_time'') \<and>
          time_field (end_time sd) (map_of d ''end_time'')
      | _ \<Rightarrow> False)"

text \<open>The numbered entry of one search result, and the entries of a list of results.\<close>

definition numbered_entry :: "(pyval \<Rightarrow> string) \<Rightarrow> nat \<Rightarrow> (string \<times> pyval) list \<Rightarrow> string" where
  "numbered_entry fmt i r =
     show_nat i @ ''. '' @ py_str fmt (dict_get r ''title'' (PStr ''No Title'')) @ '': '' @
     py_str fmt (dict_get r ''snippet'' (PStr [])) @ [CHR 0x0A]"

fun numbered_entries :: "(pyval \<Rightarrow> string) \<Rightarrow> nat \<Rightarrow> (string \<times> pyval) list list \<Rightarrow> string list" where
  "numbered_entries fmt i [] = []"
| "numbered_entries fmt i (r # rs) = numbered_entry fmt i r # numbered_entries fmt (Suc i) rs"

text \<open>
  What a run of \<open>wrapped_method\<close> leaves behind: its result, and of the span it opened an
  attribute, the exceptions recorded, the status and whether the span has ended.
\<close>

definition run_result :: "agent \<times> span option \<times> (exn + pyval) \<Rightarrow> exn + pyval" where
  "run_result r = snd (snd r)"

definition run_attribute :: "agent \<times> span option \<times> (exn + pyval) \<Rightarrow> string \<Rightarrow> pyval option" where
  "run_attribute r k = (case fst (snd r) of None \<Rightarrow> None | Some s \<Rightarrow> attributes s k)"

definition run_recorded :: "agent \<times> span option \<times> (exn + pyval) \<Rightarrow> exn list" where
  "run_recorded r = (case fst (snd r) of None \<Rightarrow> [] | Some s \<Rightarrow> recorded s)"

definition run_status :: "agent \<times> span option \<times> (exn + pyval) \<Rightarrow> status_code option" where
  "run_status r = (case fst (snd r) of None \<Rightarrow> None | Some s \<Rightarrow> Some (span_status s))"

definition run_ended :: "agent \<times> span option \<times> (exn + pyval) \<Rightarrow> bool" where
  "run_ended r = (case fst (snd r) of None \<Rightarrow> False | Some s \<Rightarrow> ended s)"

text \<open>A value that the operator \<open>in\<close> can search: a string, a list or a dict.\<close>

definition is_container :: "pyval \<Rightarrow> bool" where
  "is_container v = (case v of PStr t \<Rightarrow> True | PList xs \<Rightarrow> True | PDict kvs \<Rightarrow> True | _ \<Rightarrow> False)"

text \<open>A value that is a string.\<close>

definition is_str :: "pyval \<Rightarrow> bool" where
  "is_str v = (case v of PStr t \<Rightarrow> True | _ \<Rightarrow> False)"

text \<open>An external call that raises nothing outside the class \<open>Exception\<close>.\<close>

definition raises_within_Exception :: "exn + 'a \<Rightarrow> bool" where
  "raises_within_Exception r = (case r of Inl e \<Rightarrow> isinstance_exn e ''Exception'' | Inr v \<Rightarrow> True)"

definition response_within_Exception :: "exn + response \<Rightarrow> bool" where
  "response_within_Exception r =
     (case r of
        Inl e \<Rightarrow> isinstance_exn e ''Exception''
      | Inr res \<Rightarrow>
          (case raise_for_status res of Some e \<Rightarrow> isinstance_exn e ''Exception'' | None \<Rightarrow> True) \<and>
          raises_within_Exception (json res))"

section \<open>Properties of the interception wrapper\<close>

lemma substring_append_right: "substring p ys \<Longrightarrow> substring p (xs @ ys)"
  by (induction xs) auto

lemma wrap_keeps_agent: "snd (wrap_agent_with_telemetry a) = a"
  by (simp add: wrap_agent_with_telemetry_def)

lemma try_block_returns_or_raises: "snd (try_block dumps om args kwargs s) \<noteq> FallThrough"
  by (simp add: try_block_def split: prod.splits sum.splits)

lemma with_body_returns_or_raises:
  "snd (with_body fmt dumps om args kwargs an sender msgs c s0) \<noteq> FallThrough"
  by (simp add: with_body_def Let_def try_block_returns_or_raises split: sum.splits)

text \<open>
  The closure never reaches its last statement, so it never changes the agent either.
\<close>

lemma wrapped_method_keeps_agent:
  "fst (wrapped_method fmt dumps a original om args kwargs) = a"
proof -
  have "\<And>an sender msgs c s0 s.
          with_body fmt dumps om args kwargs an sender msgs c s0 \<noteq> (s, FallThrough)"
    using with_body_returns_or_raises by (metis snd_conv)
  then show ?thesis
    by (auto simp add: wrapped_method_def Let_def split: sum.splits prod.splits flow.splits)
qed

text \<open>
  C1. The claim: a successful call of \<open>wrap_agent_with_telemetry\<close> replaces the operation
  \<open>on_messages\<close> of the agent in place with the instrumented version. The code does not:
  for every agent whose \<open>on_messages\<close> is a coroutine function the call succeeds and
  leaves the agent as it was, the original operation still in place. The witness is the
  planning agent of main.py.
\<close>

theorem wrap_leaves_original_in_place:
  assumes "on_messages a = Some (Coroutine f)"
  shows "wrap_agent_with_telemetry a = (Inr (), a)"
  using assms
  by (simp add: wrap_agent_with_telemetry_def hasattr_on_messages_def iscoroutinefunction_def)

theorem wrap_leaves_original_in_place_witness:
  "wrap_agent_with_telemetry
     \<lparr>type_name = ''AssistantAgent'', name_attr = Some (PStr ''PlanningAgent''),
      on_messages = Some (Coroutine (Original 0))\<rparr> =
   (Inr (),
    \<lparr>type_name = ''AssistantAgent'', name_attr = Some (PStr ''PlanningAgent''),
     on_messages = Some (Coroutine (Original 0))\<rparr>)"
  using wrap_leaves_original_in_place
    [of "\<lparr>type_name = ''AssistantAgent'', name_attr = Some (PStr ''PlanningAgent''),
          on_messages = Some (Coroutine (Original 0))\<rparr>" "Original 0"]
  by simp

text \<open>
  C5. For every object that has no attribute \<open>on_messages\<close>, or whose \<open>on_messages\<close> is not
  a coroutine function, \<open>wrap_agent_with_telemetry\<close> raises at wrap time a \<open>TypeError\<close>
  whose message names the missing capability, the async method \<open>on_messages\<close>, and the
  object is left as it was.
\<close>

theorem wrap_unsupported_target:
  assumes "on_messages a = None \<or> on_messages a = Some NotCoroutine"
  shows "\<exists>e. wrap_agent_with_telemetry a = (Inl e, a) \<and> exn_type e = ''TypeError'' \<and>
             substring (''async '' @ [CHR 0x27] @ ''on_messages'' @ [CHR 0x27] @ '' method'') (exn_msg e)"
proof -
  have w: "wrap_agent_with_telemetry a = (Inl (unsupported_target a), a)"
    using assms
    by (auto simp add: wrap_agent_with_telemetry_def hasattr_on_messages_def
        iscoroutinefunction_def)
  have t: "exn_type (unsupported_target a) = ''TypeError''"
    by (simp add: unsupported_target_def builtin_error_def)
  have "substring (''async '' @ [CHR 0x27] @ ''on_messages'' @ [CHR 0x27] @ '' method'')
          ('' does not have an async 'on_messages' method and cannot be wrapped.'')"
    by simp
  then have "substring (''async '' @ [CHR 0x27] @ ''on_messages'' @ [CHR 0x27] @ '' method'')
          ((''Object '' @ type_name a) @
           '' does not have an async 'on_messages' method and cannot be wrapped.'')"
    by (rule substring_append_right)
  then have m: "substring (''async '' @ [CHR 0x27] @ ''on_messages'' @ [CHR 0x27] @ '' method'')
          (exn_msg (unsupported_target a))"
    by (simp add: unsupported_target_def builtin_error_def)
  from w t m show ?thesis by blast
qed

theorem wrap_unsupported_target_witness:
  "\<exists>e. wrap_agent_with_telemetry \<lparr>type_name = ''Tool'', name_attr = None, on_messages = Some NotCoroutine\<rparr> =
         (Inl e, \<lparr>type_name = ''Tool'', name_attr = None, on_messages = Some NotCoroutine\<rparr>) \<and>
       exn_type e = ''TypeError'' \<and>
       substring (''async '' @ [CHR 0x27] @ ''on_messages'' @ [CHR 0x27] @ '' method'') (exn_msg e)"
  using wrap_unsupported_target
    [of "\<lparr>type_name = ''Tool'', name_attr = None, on_messages = Some NotCoroutine\<rparr>"]
  by simp

section \<open>Properties of the tool functions\<close>

text \<open>
  C3. The result of \<open>weather_tool\<close> does not depend on the environment: two runs that differ
  only in the environment, and so in the variable \<open>WEATHER_API_APIKEY\<close>, give the same
  spans, the same requests and the same return value.
\<close>

theorem weather_tool_ignores_environment:
  "weather_tool fmt env1 http_get city = weather_tool fmt env2 http_get city"
  by (simp add: weather_tool_def)

text \<open>
  C2. The claim: when the credential of the weather service is missing from the
  environment, \<open>weather_tool\<close> returns a string that starts with \<open>Error:\<close> and makes no
  network call. The code does not read the environment: for every environment, the empty
  one included, it issues the one request with the key of line 18. The witness is the run
  for London in an empty environment with a service that answers: one request, and the
  sentence about the weather as the result.
\<close>

theorem weather_tool_calls_without_credential:
  "calls (weather_tool fmt env http_get city) =
     [weather_request ''45408d486ba24acb91c44416253004'' city]"
  by (simp add: weather_tool_def Let_def split: prod.splits sum.splits)

theorem weather_tool_calls_without_credential_witness:
  "calls (weather_tool (\<lambda>v. []) Map.empty
      (\<lambda>r. Inr \<lparr>raise_for_status = None,
                 json = Inr (PDict [(''current'',
                   PDict [(''temp_c'', PInt 21), (''condition'', PDict [(''text'', PStr ''Sunny'')])])])\<rparr>)
      ''London'') =
     [weather_request ''45408d486ba24acb91c44416253004'' ''London''] \<and>
   outcome (weather_tool (\<lambda>v. []) Map.empty
      (\<lambda>r. Inr \<lparr>raise_for_status = None,
                 json = Inr (PDict [(''current'',
                   PDict [(''temp_c'', PInt 21), (''condition'', PDict [(''text'', PStr ''Sunny'')])])])\<rparr>)
      ''London'') =
     Inr (''The current weather in London is Sunny with a temperature of 21'' @
          [CHR 0xC2, CHR 0xB0] @ ''C.'')"
  using weather_tool_calls_without_credential [of "\<lambda>v. []" Map.empty _ "''London''"]
  by (simp add: weather_tool_def weather_try_def weather_fields_def Let_def show_int_def
      show_nat.simps digit_char_def)

subsection \<open>Exceptions the interpreter raises are instances of Exception\<close>

lemma builtin_error_is_Exception: "isinstance_exn (builtin_error cls msg) ''Exception''"
  by (simp add: builtin_error_def isinstance_exn_def)

lemma py_getitem_raises: "py_getitem v k = Inl e \<Longrightarrow> isinstance_exn e ''Exception''"
  by (cases v) (auto simp add: builtin_error_def isinstance_exn_def split: option.splits)

lemma py_get_raises: "py_get v k d = Inl e \<Longrightarrow> isinstance_exn e ''Exception''"
  by (cases v) (auto simp add: builtin_error_is_Exception)

lemma py_len_raises: "py_len v = Inl e \<Longrightarrow> isinstance_exn e ''Exception''"
  by (cases v) (auto simp add: builtin_error_is_Exception)

lemma slice_top_raises: "slice_top n v = Inl e \<Longrightarrow> isinstance_exn e ''Exception''"
  by (cases v) (auto simp add: builtin_error_is_Exception)

lemma cap_snippet_raises: "cap_snippet v = Inl e \<Longrightarrow> isinstance_exn e ''Exception''"
  by (auto simp add: cap_snippet_def builtin_error_is_Exception py_len_raises
      split: sum.splits if_splits pyval.splits)

lemma weather_fields_raises: "weather_fields data = Inl e \<Longrightarrow> isinstance_exn e ''Exception''"
  by (auto simp add: weather_fields_def py_getitem_raises split: sum.splits)

lemma results_loop_raises:
  "results_loop fmt i rs out s = (s', Inl e) \<Longrightarrow> isinstance_exn e ''Exception''"
proof (induction rs arbitrary: i out s)
  case Nil
  then show ?case by simp
next
  case (Cons r rs)
  then show ?case
    by (auto simp add: Let_def py_get_raises cap_snippet_raises split: sum.splits)
qed

lemma search_output_raises:
  "search_output fmt query results s = (s', Inl e) \<Longrightarrow> isinstance_exn e ''Exception''"
  by (auto simp add: search_output_def Let_def py_get_raises slice_top_raises py_len_raises
      results_loop_raises split: sum.splits if_splits prod.splits)

lemma weather_try_raises:
  assumes "response_within_Exception (http_get (weather_request key city))"
      and "weather_try fmt http_get key city s = (s', Inl e)"
  shows "isinstance_exn e ''Exception''"
  using assms
  by (auto simp add: weather_try_def response_within_Exception_def raises_within_Exception_def
      Let_def weather_fields_raises split: sum.splits option.splits prod.splits)

lemma weather_tool_returns:
  assumes "response_within_Exception (http_get (weather_request ''45408d486ba24acb91c44416253004'' city))"
  shows "\<exists>t. outcome (weather_tool fmt env http_get city) = Inr t"
proof (cases "weather_try fmt http_get ''45408d486ba24acb91c44416253004'' city
               (set_attribute ''weather.city'' (PStr city) (start_span ''tool.weather_tool'' CLIENT))")
  case (Pair s r)
  show ?thesis
  proof (cases r)
    case (Inl e)
    with Pair assms have "isinstance_exn e ''Exception''"
      using weather_try_raises by blast
    with Pair Inl show ?thesis
      by (simp add: weather_tool_def Let_def split: prod.splits)
  next
    case (Inr t)
    with Pair show ?thesis
      by (simp add: weather_tool_def Let_def)
  qed
qed

lemma web_search_returns:
  assumes "\<forall>key. env ''SERP_API_KEY'' = Some key \<longrightarrow>
             raises_within_Exception (get_dict (search_request query key))"
  shows "\<exists>t. outcome (web_search fmt env get_dict query) = Inr t"
proof (cases "env ''SERP_API_KEY''")
  case None
  then show ?thesis by (simp add: web_search_def Let_def)
next
  case (Some key)
  with assms have r: "raises_within_Exception (get_dict (search_request query key))"
    by simp
  show ?thesis
  proof (cases "key = []")
    case True
    with Some show ?thesis by (simp add: web_search_def Let_def)
  next
    case False
    show ?thesis
    proof (cases "get_dict (search_request query key)")
      case (Inl e)
      with r have "isinstance_exn e ''Exception''"
        by (simp add: raises_within_Exception_def)
      with Some False Inl show ?thesis
        by (simp add: web_search_def Let_def)
    next
      case (Inr results)
      show ?thesis
      proof (cases "search_output fmt query results
                      (set_attribute ''search.query'' (PStr query) (start_span ''tool.web_search'' CLIENT))")
        case (Pair s res)
        show ?thesis
        proof (cases res)
          case (Inl e)
          with Pair have "isinstance_exn e ''Exception''"
            using search_output_raises by blast
          with Some False Inr Pair Inl show ?thesis
            by (simp add: web_search_def Let_def)
        next
          case (Inr t)
          with Some False \<open>get_dict (search_request query key) = Inr results\<close> Pair show ?thesis
            by (simp add: web_search_def Let_def)
        qed
      qed
    qed
  qed
qed

text \<open>
  C10. The claim: for every behaviour of the external call, any exception included, the
  two tools return a string and raise nothing. The handlers are \<open>except Exception\<close>, so an
  exception outside that class leaves the tool: a \<open>KeyboardInterrupt\<close> raised inside
  \<open>requests.get\<close> leaves \<open>weather_tool\<close>, and the \<open>CancelledError\<close> of a cancelled await
  leaves \<open>web_search\<close>.
\<close>

theorem tools_raise_counterexample:
  "outcome (weather_tool (\<lambda>v. []) Map.empty
      (\<lambda>r. Inl (Exn ''KeyboardInterrupt'' [''BaseException''] [] 1)) ''London'') =
     Inl (Exn ''KeyboardInterrupt'' [''BaseException''] [] 1) \<and>
   outcome (web_search (\<lambda>v. []) [''SERP_API_KEY'' \<mapsto> ''k'']
      (\<lambda>r. Inl (Exn ''CancelledError'' [''BaseException''] [] 1)) ''president of USA'') =
     Inl (Exn ''CancelledError'' [''BaseException''] [] 1)"
  by (simp add: weather_tool_def weather_try_def web_search_def isinstance_exn_def Let_def)

text \<open>
  C10, amended. For every input and every behaviour of the external call that raises
  nothing outside the class \<open>Exception\<close> (success, network error, malformed response, any
  other such exception), \<open>weather_tool\<close> and \<open>web_search\<close> each return a string and raise
  nothing.
\<close>

theorem tools_return_strings:
  "(response_within_Exception (http_get (weather_request ''45408d486ba24acb91c44416253004'' city)) \<longrightarrow>
      (\<exists>t. outcome (weather_tool fmt env http_get city) = Inr t)) \<and>
   ((\<forall>key. env ''SERP_API_KEY'' = Some key \<longrightarrow>
        raises_within_Exception (get_dict (search_request query key))) \<longrightarrow>
      (\<exists>t. outcome (web_search fmt env get_dict query) = Inr t))"
  using weather_tool_returns web_search_returns by blast

text \<open>
  The witness: a service that answers with a body that is no dict, and a search that fails
  with a connection error. Both tools return their error strings.
\<close>

theorem tools_return_strings_witness:
  "response_within_Exception
     ((\<lambda>r. Inr \<lparr>raise_for_status = None, json = Inr (PList [])\<rparr>)
        (weather_request ''45408d486ba24acb91c44416253004'' ''London'')) \<and>
   outcome (weather_tool (\<lambda>v. []) [''SERP_API_KEY'' \<mapsto> ''k'']
      (\<lambda>r. Inr \<lparr>raise_for_status = None, json = Inr (PList [])\<rparr>) ''London'') =
     Inr ''Weather tool error: list indices must be integers'' \<and>
   raises_within_Exception
     ((\<lambda>r. Inl (Exn ''ConnectionError'' [''OSError'', ''Exception'', ''BaseException''] ''no route'' 1)
         :: exn + pyval)
        (search_request ''president of USA'' ''k'')) \<and>
   outcome (web_search (\<lambda>v. []) [''SERP_API_KEY'' \<mapsto> ''k'']
      (\<lambda>r. Inl (Exn ''ConnectionError'' [''OSError'', ''Exception'', ''BaseException''] ''no route'' 1))
      ''president of USA'') =
     Inr ''Web search error: no route''"
  using tools_return_strings
    [where http_get = "\<lambda>r. Inr \<lparr>raise_for_status = None, json = Inr (PList [])\<rparr>"
       and city = "''London''" and fmt = "\<lambda>v. []"
       and env = "[''SERP_API_KEY'' \<mapsto> ''k'']"
       and get_dict = "\<lambda>r. Inl (Exn ''ConnectionError'' [''OSError'', ''Exception'', ''BaseException''] ''no route'' 1)"
       and query = "''president of USA''"]
  by (simp add: weather_tool_def weather_try_def weather_fields_def weather_except_def
      web_search_def isinstance_exn_def response_within_Exception_def
      raises_within_Exception_def builtin_error_def Let_def)

text \<open>
  C6. \<open>shutdown\<close> with an empty buffer writes a file that holds the empty JSON array \<open>[]\<close>;
  a second \<open>shutdown\<close> right after the first leaves the file holding \<open>[]\<close>; and every
  \<open>shutdown\<close> clears the buffer. \<open>shutdown\<close> has no statement that raises: it is a
  total function of the exporter and the file system.
\<close>

theorem shutdown_empty_buffer:
  "(spans self = [] \<longrightarrow> snd (shutdown self fs) (file_path self) = Some ''[]'') \<and>
   snd (shutdown (fst (shutdown self fs)) (snd (shutdown self fs))) (file_path self) = Some ''[]'' \<and>
   spans (fst (shutdown self fs)) = [] \<and>
   spans (fst (shutdown (fst (shutdown self fs)) (snd (shutdown self fs)))) = []"
  by (simp add: shutdown_def)

theorem shutdown_empty_buffer_witness:
  "spans \<lparr>file_path = ''telemetry_output.json'', spans = []\<rparr> = [] \<and>
   snd (shutdown \<lparr>file_path = ''telemetry_output.json'', spans = []\<rparr> Map.empty)
     ''telemetry_output.json'' = Some ''[]'' \<and>
   snd (shutdown (fst (shutdown \<lparr>file_path = ''telemetry_output.json'', spans = []\<rparr> Map.empty))
          (snd (shutdown \<lparr>file_path = ''telemetry_output.json'', spans = []\<rparr> Map.empty)))
     ''telemetry_output.json'' = Some ''[]'' \<and>
   spans (fst (shutdown \<lparr>file_path = ''telemetry_output.json'', spans = []\<rparr> Map.empty)) = []"
  using shutdown_empty_buffer [of "\<lparr>file_path = ''telemetry_output.json'', spans = []\<rparr>" Map.empty]
  by simp

subsection \<open>The entries of web\_search\<close>

lemma cap_snippet_str: "is_str v \<Longrightarrow> \<exists>w. cap_snippet v = Inr w"
  by (cases v) (simp_all add: is_str_def cap_snippet_def)

lemma results_loop_entries:
  assumes "\<forall>r \<in> set rs. is_str (dict_get r ''snippet'' (PStr []))"
  shows "\<exists>s'. results_loop fmt i (map PDict rs) out s =
               (s', Inr (out @ concat (numbered_entries fmt i rs)))"
  using assms
proof (induction rs arbitrary: i out s)
  case Nil
  then show ?case by simp
next
  case (Cons r rs)
  from Cons.prems obtain w where w: "cap_snippet (dict_get r ''snippet'' (PStr [])) = Inr w"
    using cap_snippet_str by fastforce
  from Cons.prems have rest: "\<forall>r \<in> set rs. is_str (dict_get r ''snippet'' (PStr []))"
    by simp
  from Cons.IH [OF rest] obtain s' where
    "results_loop fmt (Suc i) (map PDict rs)
       (out @ numbered_entry fmt i r)
       (add_event (''result_'' @ show_nat i)
          [(''title'', dict_get r ''title'' (PStr ''No Title'')), (''snippet'', w),
           (''link'', dict_get r ''link'' (PStr ''No Link''))] s) =
     (s', Inr ((out @ numbered_entry fmt i r) @ concat (numbered_entries fmt (Suc i) rs)))"
    by blast
  with w show ?case
    by (simp add: Let_def numbered_entry_def)
qed

lemma length_numbered_entries: "length (numbered_entries fmt i rs) = length rs"
  by (induction rs arbitrary: i) simp_all

lemma search_output_entries:
  assumes "dict_get resp ''organic_results'' (PList []) = PList (map PDict rs)"
      and "\<forall>r \<in> set (take 3 rs). is_str (dict_get r ''snippet'' (PStr []))"
  shows "\<exists>s'. search_output fmt query (PDict resp) s =
           (s', Inr (if rs = [] then ''No results found.''
                     else ''Search results for '' @ [CHR 0x27] @ query @ [CHR 0x27] @ '':'' @ [CHR 0x0A] @
                          concat (numbered_entries fmt 1 (take 3 rs))))"
proof (cases "rs = []")
  case True
  with assms(1) show ?thesis
    by (simp add: search_output_def Let_def)
next
  case False
  obtain s1 where
    "results_loop fmt 1 (map PDict (take 3 rs))
       (''Search results for '' @ [CHR 0x27] @ query @ [CHR 0x27] @ '':'' @ [CHR 0x0A]) s =
     (s1, Inr ((''Search results for '' @ [CHR 0x27] @ query @ [CHR 0x27] @ '':'' @ [CHR 0x0A]) @
               concat (numbered_entries fmt 1 (take 3 rs))))"
    using results_loop_entries [OF assms(2)] by blast
  with False assms(1) show ?thesis
    by (simp add: search_output_def Let_def take_map)
qed

text \<open>
  C7. For every query, with the search key configured and a response whose organic
  results are dicts with string snippets: with no organic result \<open>web_search\<close> returns
  exactly \<open>No results found.\<close>; otherwise it returns the heading followed by the numbered
  entries of the first three results, so three entries for three results and never more
  than three.
\<close>

theorem web_search_numbered_entries:
  assumes "env ''SERP_API_KEY'' = Some key" and "key \<noteq> []"
      and "get_dict (search_request query key) = Inr (PDict resp)"
      and "dict_get resp ''organic_results'' (PList []) = PList (map PDict rs)"
      and "\<forall>r \<in> set (take 3 rs). is_str (dict_get r ''snippet'' (PStr []))"
  shows "outcome (web_search fmt env get_dict query) =
           Inr (if rs = [] then ''No results found.''
                else ''Search results for '' @ [CHR 0x27] @ query @ [CHR 0x27] @ '':'' @ [CHR 0x0A] @
                     concat (numbered_entries fmt 1 (take 3 rs))) \<and>
         length (numbered_entries fmt 1 (take 3 rs)) = min 3 (length rs)"
proof -
  obtain s' where
    "search_output fmt query (PDict resp)
       (set_attribute ''search.query'' (PStr query) (start_span ''tool.web_search'' CLIENT)) =
     (s', Inr (if rs = [] then ''No results found.''
               else ''Search results for '' @ [CHR 0x27] @ query @ [CHR 0x27] @ '':'' @ [CHR 0x0A] @
                    concat (numbered_entries fmt 1 (take 3 rs))))"
    using search_output_entries [OF assms(4) assms(5)] by blast
  with assms(1,2,3) have
    "outcome (web_search fmt env get_dict query) =
       Inr (if rs = [] then ''No results found.''
            else ''Search results for '' @ [CHR 0x27] @ query @ [CHR 0x27] @ '':'' @ [CHR 0x0A] @
                 concat (numbered_entries fmt 1 (take 3 rs)))"
    by (simp add: web_search_def Let_def)
  then show ?thesis
    by (simp add: length_numbered_entries min_def)
qed

text \<open>The witness: four organic results give the heading and the first three entries.\<close>

theorem web_search_numbered_entries_witness:
  "outcome (web_search (\<lambda>v. []) [''SERP_API_KEY'' \<mapsto> ''k'']
      (\<lambda>r. Inr (PDict [(''organic_results'', PList (map PDict
         [[(''title'', PStr ''A''), (''snippet'', PStr ''a'')],
          [(''title'', PStr ''B''), (''snippet'', PStr ''b'')],
          [(''title'', PStr ''C''), (''snippet'', PStr ''c'')],
          [(''title'', PStr ''D''), (''snippet'', PStr ''d'')]]))]))
      ''president of USA'') =
     Inr (''Search results for '' @ [CHR 0x27] @ ''president of USA'' @ [CHR 0x27] @ '':'' @ [CHR 0x0A] @
          ''1. A: a'' @ [CHR 0x0A] @ ''2. B: b'' @ [CHR 0x0A] @ ''3. C: c'' @ [CHR 0x0A]) \<and>
   length (numbered_entries (\<lambda>v. []) 1 (take 3
         [[(''title'', PStr ''A''), (''snippet'', PStr ''a'')],
          [(''title'', PStr ''B''), (''snippet'', PStr ''b'')],
          [(''title'', PStr ''C''), (''snippet'', PStr ''c'')],
          [(''title'', PStr ''D''), (''snippet'', PStr ''d'')]])) = 3"
  using web_search_numbered_entries
    [where env = "[''SERP_API_KEY'' \<mapsto> ''k'']" and key = "''k''"
       and query = "''president of USA''" and fmt = "\<lambda>v. []"
       and get_dict = "\<lambda>r. Inr (PDict [(''organic_results'', PList (map PDict
         [[(''title'', PStr ''A''), (''snippet'', PStr ''a'')],
          [(''title'', PStr ''B''), (''snippet'', PStr ''b'')],
          [(''title'', PStr ''C''), (''snippet'', PStr ''c'')],
          [(''title'', PStr ''D''), (''snippet'', PStr ''d'')]]))])"
       and resp = "[(''organic_results'', PList (map PDict
         [[(''title'', PStr ''A''), (''snippet'', PStr ''a'')],
          [(''title'', PStr ''B''), (''snippet'', PStr ''b'')],
          [(''title'', PStr ''C''), (''snippet'', PStr ''c'')],
          [(''title'', PStr ''D''), (''snippet'', PStr ''d'')]]))]"
       and rs = "[[(''title'', PStr ''A''), (''snippet'', PStr ''a'')],
          [(''title'', PStr ''B''), (''snippet'', PStr ''b'')],
          [(''title'', PStr ''C''), (''snippet'', PStr ''c'')],
          [(''title'', PStr ''D''), (''snippet'', PStr ''d'')]]"]
  by (simp add: dict_get_def is_str_def numbered_entry_def show_nat.simps digit_char_def
      eval_nat_numeral)

section \<open>Properties of the instrumented operation\<close>

lemma attributes_set_attribute:
  "attributes (set_attribute k v s) k' = (if k' = k then Some v else attributes s k')"
  by (simp add: set_attribute_def)

lemma recorded_set_attribute: "recorded (set_attribute k v s) = recorded s"
  by (simp add: set_attribute_def)

lemma token_attributes_keeps_type:
  "attributes (fst (token_attributes u s)) ''messaging.message.type'' =
   attributes s ''messaging.message.type''"
  by (simp add: token_attributes_def Let_def attributes_set_attribute split: pyval.splits)

lemma extract_output_keeps_type:
  "attributes (fst (extract_output dumps r s)) ''messaging.message.type'' =
   attributes s ''messaging.message.type''"
proof (cases r)
  case (PDict d)
  obtain s1 tu where t: "token_attributes (dict_get d ''usage'' (PDict [])) s = (s1, tu)"
    by (cases "token_attributes (dict_get d ''usage'' (PDict [])) s")
  have "attributes s1 ''messaging.message.type'' = attributes s ''messaging.message.type''"
    using token_attributes_keeps_type [of "dict_get d ''usage'' (PDict [])" s] t by simp
  with PDict t show ?thesis
    by (simp add: extract_output_def Let_def attributes_set_attribute split: pyval.splits sum.splits)
next
  case (PList xs)
  then show ?thesis
    by (simp add: extract_output_def attributes_set_attribute split: pyval.splits)
qed (simp_all add: extract_output_def)

lemma try_body_keeps_type:
  "attributes (fst (try_body dumps om args kwargs s)) ''messaging.message.type'' =
   attributes s ''messaging.message.type''"
proof (cases "om args kwargs")
  case (Inl e)
  then show ?thesis by (simp add: try_body_def)
next
  case (Inr r)
  obtain s1 x where e: "extract_output dumps r s = (s1, x)"
    by (cases "extract_output dumps r s")
  have "attributes s1 ''messaging.message.type'' = attributes s ''messaging.message.type''"
    using extract_output_keeps_type [of dumps r s] e by simp
  with Inr e show ?thesis
    by (simp add: try_body_def status_ok_def attributes_set_attribute
        split: sum.splits prod.splits)
qed

lemma try_block_keeps_type:
  "attributes (fst (try_block dumps om args kwargs s)) ''messaging.message.type'' =
   attributes s ''messaging.message.type''"
proof -
  obtain s1 x where b: "try_body dumps om args kwargs s = (s1, x)"
    by (cases "try_body dumps om args kwargs s")
  have "attributes s1 ''messaging.message.type'' = attributes s ''messaging.message.type''"
    using try_body_keeps_type [of dumps om args kwargs s] b by simp
  with b show ?thesis
    by (simp add: try_block_def except_handler_def record_exception_def attributes_set_attribute
        split: sum.splits)
qed

lemma with_body_type_attribute:
  "attributes (fst (with_body fmt dumps om args kwargs an sender msgs c s0))
     ''messaging.message.type'' =
   (case message_type c msgs of
      Inl e \<Rightarrow> attributes s0 ''messaging.message.type''
    | Inr mt \<Rightarrow> Some (PStr mt))"
  by (simp add: with_body_def Let_def try_block_keeps_type attributes_set_attribute
      split: sum.splits)

lemma latest_message_len:
  assumes "latest_message msgs = Inr m" and "truthy msgs"
  shows "\<exists>n. py_len msgs = Inr n"
  using assms by (cases msgs) (simp_all add: latest_message_def)

lemma not_truthy_len: "\<not> truthy msgs \<Longrightarrow> py_len msgs \<noteq> Inr 1"
  by (cases msgs) auto

lemma message_type_priority_value:
  assumes "latest_message msgs = Inr m"
  shows "message_type c msgs =
           (if is_container c then
              Inr (if py_in ''tool_code'' c = Inr True then ''tool_code''
                   else if py_in ''tool_response'' c = Inr True then ''tool_response''
                   else if py_len msgs = Inr 1 then ''initial_request''
                   else ''plain_text'')
            else Inl (builtin_error ''TypeError'' ''argument is not iterable''))"
proof (cases "truthy msgs")
  case True
  with assms obtain n where "py_len msgs = Inr n"
    using latest_message_len by blast
  with True show ?thesis
    by (cases c) (auto simp add: message_type_def is_container_def split: bool.splits)
next
  case False
  then have "py_len msgs \<noteq> Inr 1" by (rule not_truthy_len)
  with False show ?thesis
    by (cases c) (auto simp add: message_type_def is_container_def split: bool.splits)
qed

text \<open>
  What lines 110 to 120 record, for an invocation that gets as far as its span (line 95
  finds a latest message in what line 94 takes for the message list): the priority chain
  over the content of that message, when the operator \<open>in\<close> can search the content;
  nothing at all otherwise, since line 111 raises.
\<close>

lemma message_type_follows_priority:
  assumes "latest_message (messages_arg args kwargs) = Inr m"
      and "content = dict_get m ''content'' (PStr [])"
  shows "run_attribute (wrapped_method fmt dumps agent original original_method args kwargs)
           ''messaging.message.type'' =
         (if is_container content then
            Some (PStr (if py_in ''tool_code'' content = Inr True then ''tool_code''
                        else if py_in ''tool_response'' content = Inr True then ''tool_response''
                        else if py_len (messages_arg args kwargs) = Inr 1 then ''initial_request''
                        else ''plain_text''))
          else None) \<and>
         run_attribute (wrapped_method fmt dumps agent original original_method args kwargs)
           ''messaging.message.type'' \<in>
           {None, Some (PStr ''tool_code''), Some (PStr ''tool_response''),
            Some (PStr ''initial_request''), Some (PStr ''plain_text'')}"
proof -
  let ?an = "case name_attr agent of Some n \<Rightarrow> n | None \<Rightarrow> PStr (type_name agent)"
  let ?s0 = "start_span (''messaging.process '' @ py_str fmt ?an) CONSUMER"
  let ?w = "with_body fmt dumps original_method args kwargs ?an (sender_arg args kwargs)
              (messages_arg args kwargs) content ?s0"
  have run: "run_attribute (wrapped_method fmt dumps agent original original_method args kwargs)
               ''messaging.message.type'' =
             attributes (fst ?w) ''messaging.message.type''"
    using assms
    by (simp add: run_attribute_def wrapped_method_def Let_def exit_span_def end_span_def
        set_status_def record_exception_def split: prod.splits flow.splits)
  have "attributes (fst ?w) ''messaging.message.type'' =
        (case message_type content (messages_arg args kwargs) of
           Inl e \<Rightarrow> attributes ?s0 ''messaging.message.type''
         | Inr mt \<Rightarrow> Some (PStr mt))"
    by (rule with_body_type_attribute)
  also have "\<dots> =
        (if is_container content then
            Some (PStr (if py_in ''tool_code'' content = Inr True then ''tool_code''
                        else if py_in ''tool_response'' content = Inr True then ''tool_response''
                        else if py_len (messages_arg args kwargs) = Inr 1 then ''initial_request''
                        else ''plain_text''))
          else None)"
    by (simp add: message_type_priority_value [OF assms(1)] start_span_def)
  finally have main:
    "attributes (fst ?w) ''messaging.message.type'' =
        (if is_container content then
            Some (PStr (if py_in ''tool_code'' content = Inr True then ''tool_code''
                        else if py_in ''tool_response'' content = Inr True then ''tool_response''
                        else if py_len (messages_arg args kwargs) = Inr 1 then ''initial_request''
                        else ''plain_text''))
          else None)" .
  from run main show ?thesis by simp
qed

text \<open>
  With the message list passed by keyword the chain sees the messages: two messages,
  the latest with the response marker in its content.
\<close>

lemma keyword_messages_response_marker:
  "run_attribute
     (wrapped_method (\<lambda>v. []) (\<lambda>v. Inr [])
        \<lparr>type_name = ''AssistantAgent'', name_attr = Some (PStr ''WeatherAgent''),
         on_messages = Some (Coroutine (Original 0))\<rparr>
        (Original 0) (\<lambda>a k. Inr (PStr ''done'')) []
        [''messages'' \<mapsto> PList [PDict [(''content'', PStr ''weather in London'')],
                                   PDict [(''content'', PStr ''tool_response: sunny'')]]])
     ''messaging.message.type'' = Some (PStr ''tool_response'')"
  using message_type_follows_priority
    [where args = "[]"
       and kwargs = "[''messages'' \<mapsto> PList [PDict [(''content'', PStr ''weather in London'')],
                                   PDict [(''content'', PStr ''tool_response: sunny'')]]]"
       and m = "[(''content'', PStr ''tool_response: sunny'')]"
       and content = "PStr ''tool_response: sunny''"
       and fmt = "\<lambda>v. []" and dumps = "\<lambda>v. Inr []"
       and agent = "\<lparr>type_name = ''AssistantAgent'', name_attr = Some (PStr ''WeatherAgent''),
         on_messages = Some (Coroutine (Original 0))\<rparr>"
       and original = "Original 0" and original_method = "\<lambda>a k. Inr (PStr ''done'')"]
  by (simp add: messages_arg_def latest_message_def kwargs_get_def py_or_def dict_get_def
      is_container_def)

text \<open>
  A latest message whose content is \<open>None\<close>: line 111 raises a \<open>TypeError\<close> and no type is
  recorded. A call with the message list and a token by position: line 94 takes the
  token for the message list and line 95 raises before the span is opened.
\<close>

lemma none_content_records_no_type:
  "run_attribute
     (wrapped_method (\<lambda>v. []) (\<lambda>v. Inr [])
        \<lparr>type_name = ''AssistantAgent'', name_attr = Some (PStr ''WeatherAgent''),
         on_messages = Some (Coroutine (Original 0))\<rparr>
        (Original 0) (\<lambda>a k. Inr (PStr ''done'')) []
        [''messages'' \<mapsto> PList [PDict [(''content'', PNone)]]])
     ''messaging.message.type'' = None \<and>
   run_result
     (wrapped_method (\<lambda>v. []) (\<lambda>v. Inr [])
        \<lparr>type_name = ''AssistantAgent'', name_attr = Some (PStr ''WeatherAgent''),
         on_messages = Some (Coroutine (Original 0))\<rparr>
        (Original 0) (\<lambda>a k. Inr (PStr ''done'')) []
        [''messages'' \<mapsto> PList [PDict [(''content'', PNone)]]]) =
     Inl (builtin_error ''TypeError'' ''argument is not iterable'')"
  by (simp add: run_result_def run_attribute_def wrapped_method_def with_body_def
      message_type_def sender_arg_def messages_arg_def latest_message_def kwargs_get_def
      py_or_def dict_get_def get_agent_role_def set_attribute_def start_span_def exit_span_def
      end_span_def set_status_def record_exception_def builtin_error_def isinstance_exn_def
      Let_def)

lemma positional_token_raises_before_span:
  "wrapped_method (\<lambda>v. []) (\<lambda>v. Inr [])
     \<lparr>type_name = ''AssistantAgent'', name_attr = Some (PStr ''WeatherAgent''),
      on_messages = Some (Coroutine (Original 0))\<rparr>
     (Original 0) (\<lambda>a k. Inr (PStr ''done''))
     [PList [PDict [(''content'', PStr ''weather in London'')]],
      PObj ''CancellationToken'' ''token'' []]
     Map.empty =
   (\<lparr>type_name = ''AssistantAgent'', name_attr = Some (PStr ''WeatherAgent''),
     on_messages = Some (Coroutine (Original 0))\<rparr>,
    None, Inl (builtin_error ''TypeError'' ''object is not subscriptable''))"
  by (simp add: wrapped_method_def sender_arg_def messages_arg_def latest_message_def
      kwargs_get_def py_or_def Let_def)

text \<open>
  C9. The claim: for every invocation of the instrumented operation the type recorded
  follows the priority order over the content of the latest message, a message list of
  length 1 giving \<open>initial_request\<close>. The closure is called with the arguments of the call
  as they are, with no agent in front (it hands them on unchanged to the bound original
  operation), yet line 94 looks for the message list at the second position. So for every
  call that passes the message list as its one positional argument the closure sees an
  empty list and an empty content, and records \<open>plain_text\<close> whatever the messages hold.
  The witness is the call with the one message \<open>weather in London\<close>, for which the claim
  says \<open>initial_request\<close>.
\<close>

theorem positional_messages_recorded_plain_text:
  assumes "length args \<le> 1" and "kwargs ''messages'' = None"
  shows "run_attribute (wrapped_method fmt dumps agent original original_method args kwargs)
           ''messaging.message.type'' = Some (PStr ''plain_text'')"
proof -
  from assms have m: "messages_arg args kwargs = PList []"
    by (simp add: messages_arg_def kwargs_get_def py_or_def)
  then have l: "latest_message (messages_arg args kwargs) = Inr []"
    by (simp add: latest_message_def)
  have c: "PStr [] = dict_get [] ''content'' (PStr [])"
    by (simp add: dict_get_def)
  from message_type_follows_priority [OF l c] m show ?thesis
    by (simp add: is_container_def)
qed

theorem positional_messages_recorded_plain_text_witness:
  "run_attribute
     (wrapped_method (\<lambda>v. []) (\<lambda>v. Inr [])
        \<lparr>type_name = ''AssistantAgent'', name_attr = Some (PStr ''PlanningAgent''),
         on_messages = Some (Coroutine (Original 0))\<rparr>
        (Original 0) (\<lambda>a k. Inr (PStr ''done''))
        [PList [PDict [(''content'', PStr ''weather in London'')]]] Map.empty)
     ''messaging.message.type'' = Some (PStr ''plain_text'')"
  using positional_messages_recorded_plain_text
    [where args = "[PList [PDict [(''content'', PStr ''weather in London'')]]]"
       and kwargs = Map.empty and fmt = "\<lambda>v. []" and dumps = "\<lambda>v. Inr []"
       and agent = "\<lparr>type_name = ''AssistantAgent'', name_attr = Some (PStr ''PlanningAgent''),
         on_messages = Some (Coroutine (Original 0))\<rparr>"
       and original = "Original 0" and original_method = "\<lambda>a k. Inr (PStr ''done'')"]
  by simp

text \<open>
  C4. The claim: whenever the delegated operation raises an exception, the wrapper records
  its type and message as attributes, records the exception, sets the status to ERROR,
  ends the span and re-raises the same instance. The handler is \<open>except Exception\<close>: when
  the awaited operation is cancelled, the \<open>CancelledError\<close> (which derives from
  \<open>BaseException\<close> only) passes the handler by. The span ends and the same instance
  reaches the caller, but the attributes of the type, of the message and of the status
  are not set and the handler records nothing.
\<close>

theorem cancelled_passes_handler_counterexample:
  "run_result
     (wrapped_method (\<lambda>v. []) (\<lambda>v. Inr [])
        \<lparr>type_name = ''AssistantAgent'', name_attr = Some (PStr ''WeatherAgent''),
         on_messages = Some (Coroutine (Original 0))\<rparr>
        (Original 0) (\<lambda>a k. Inl (Exn ''CancelledError'' [''BaseException''] [] 7)) []
        [''messages'' \<mapsto> PList [PDict [(''content'', PStr ''weather in London'')]]]) =
     Inl (Exn ''CancelledError'' [''BaseException''] [] 7) \<and>
   run_attribute
     (wrapped_method (\<lambda>v. []) (\<lambda>v. Inr [])
        \<lparr>type_name = ''AssistantAgent'', name_attr = Some (PStr ''WeatherAgent''),
         on_messages = Some (Coroutine (Original 0))\<rparr>
        (Original 0) (\<lambda>a k. Inl (Exn ''CancelledError'' [''BaseException''] [] 7)) []
        [''messages'' \<mapsto> PList [PDict [(''content'', PStr ''weather in London'')]]])
     ''exception.type'' = None \<and>
   run_attribute
     (wrapped_method (\<lambda>v. []) (\<lambda>v. Inr [])
        \<lparr>type_name = ''AssistantAgent'', name_attr = Some (PStr ''WeatherAgent''),
         on_messages = Some (Coroutine (Original 0))\<rparr>
        (Original 0) (\<lambda>a k. Inl (Exn ''CancelledError'' [''BaseException''] [] 7)) []
        [''messages'' \<mapsto> PList [PDict [(''content'', PStr ''weather in London'')]]])
     ''otel.status_code'' = None \<and>
   run_recorded
     (wrapped_method (\<lambda>v. []) (\<lambda>v. Inr [])
        \<lparr>type_name = ''AssistantAgent'', name_attr = Some (PStr ''WeatherAgent''),
         on_messages = Some (Coroutine (Original 0))\<rparr>
        (Original 0) (\<lambda>a k. Inl (Exn ''CancelledError'' [''BaseException''] [] 7)) []
        [''messages'' \<mapsto> PList [PDict [(''content'', PStr ''weather in London'')]]]) = []"
  by (simp add: run_result_def run_attribute_def run_recorded_def wrapped_method_def
      with_body_def try_block_def try_body_def message_type_def cap_text_def sender_name_def
      sender_arg_def messages_arg_def latest_message_def kwargs_get_def py_or_def dict_get_def
      get_agent_role_def isinstance_exn_def set_attribute_def start_span_def exit_span_def
      end_span_def Let_def)

text \<open>
  C4, amended. For every invocation of the instrumented operation in which the delegated
  original operation raises an exception that is an instance of \<open>Exception\<close>, the wrapper
  records the type and the message of the exception as span attributes, records the
  exception on the span, sets the span status to ERROR, ends the span, and re-raises the
  very same exception instance unchanged to the caller. The first three hypotheses say
  that the invocation gets to the delegated call of line 129: lines 95 to 124 raise
  nothing. The status of the span is ERROR both ways: the handler sets the attribute
  \<open>otel.status_code\<close> to ERROR on line 187, and the \<open>with\<close> block of the span, left by the
  re-raised exception, sets the status of the span itself.
\<close>

theorem delegated_exception_recorded:
  assumes "latest_message (messages_arg args kwargs) = Inr m"
      and "message_type (dict_get m ''content'' (PStr [])) (messages_arg args kwargs) = Inr mt"
      and "cap_text (dict_get m ''content'' (PStr [])) = Inr c"
      and "original_method args kwargs = Inl e"
      and "isinstance_exn e ''Exception''"
  shows "run_result (wrapped_method fmt dumps agent original original_method args kwargs) = Inl e \<and>
         run_attribute (wrapped_method fmt dumps agent original original_method args kwargs)
           ''exception.type'' = Some (PStr (exn_type e)) \<and>
         run_attribute (wrapped_method fmt dumps agent original original_method args kwargs)
           ''exception.message'' = Some (PStr (exn_msg e)) \<and>
         e \<in> set (run_recorded (wrapped_method fmt dumps agent original original_method args kwargs)) \<and>
         run_status (wrapped_method fmt dumps agent original original_method args kwargs) =
           Some ERROR \<and>
         run_attribute (wrapped_method fmt dumps agent original original_method args kwargs)
           ''otel.status_code'' = Some (PStr ''ERROR'') \<and>
         run_ended (wrapped_method fmt dumps agent original original_method args kwargs)"
  using assms
  by (simp add: run_result_def run_attribute_def run_recorded_def run_status_def run_ended_def
      wrapped_method_def with_body_def try_block_def try_body_def except_handler_def
      record_exception_def set_attribute_def set_status_def start_span_def exit_span_def
      end_span_def Let_def)

text \<open>The witness: the original operation fails with a \<open>ValueError\<close>.\<close>

theorem delegated_exception_recorded_witness:
  "run_result
     (wrapped_method (\<lambda>v. []) (\<lambda>v. Inr [])
        \<lparr>type_name = ''AssistantAgent'', name_attr = Some (PStr ''WeatherAgent''),
         on_messages = Some (Coroutine (Original 0))\<rparr>
        (Original 0) (\<lambda>a k. Inl (Exn ''ValueError'' [''Exception'', ''BaseException''] ''bad city'' 7)) []
        [''messages'' \<mapsto> PList [PDict [(''content'', PStr ''weather in London'')]]]) =
     Inl (Exn ''ValueError'' [''Exception'', ''BaseException''] ''bad city'' 7) \<and>
   run_attribute
     (wrapped_method (\<lambda>v. []) (\<lambda>v. Inr [])
        \<lparr>type_name = ''AssistantAgent'', name_attr = Some (PStr ''WeatherAgent''),
         on_messages = Some (Coroutine (Original 0))\<rparr>
        (Original 0) (\<lambda>a k. Inl (Exn ''ValueError'' [''Exception'', ''BaseException''] ''bad city'' 7)) []
        [''messages'' \<mapsto> PList [PDict [(''content'', PStr ''weather in London'')]]])
     ''exception.type'' = Some (PStr ''ValueError'') \<and>
   Exn ''ValueError'' [''Exception'', ''BaseException''] ''bad city'' 7 \<in> set (run_recorded
     (wrapped_method (\<lambda>v. []) (\<lambda>v. Inr [])
        \<lparr>type_name = ''AssistantAgent'', name_attr = Some (PStr ''WeatherAgent''),
         on_messages = Some (Coroutine (Original 0))\<rparr>
        (Original 0) (\<lambda>a k. Inl (Exn ''ValueError'' [''Exception'', ''BaseException''] ''bad city'' 7)) []
        [''messages'' \<mapsto> PList [PDict [(''content'', PStr ''weather in London'')]]])) \<and>
   run_status
     (wrapped_method (\<lambda>v. []) (\<lambda>v. Inr [])
        \<lparr>type_name = ''AssistantAgent'', name_attr = Some (PStr ''WeatherAgent''),
         on_messages = Some (Coroutine (Original 0))\<rparr>
        (Original 0) (\<lambda>a k. Inl (Exn ''ValueError'' [''Exception'', ''BaseException''] ''bad city'' 7)) []
        [''messages'' \<mapsto> PList [PDict [(''content'', PStr ''weather in London'')]]]) =
     Some ERROR \<and>
   run_ended
     (wrapped_method (\<lambda>v. []) (\<lambda>v. Inr [])
        \<lparr>type_name = ''AssistantAgent'', name_attr = Some (PStr ''WeatherAgent''),
         on_messages = Some (Coroutine (Original 0))\<rparr>
        (Original 0) (\<lambda>a k. Inl (Exn ''ValueError'' [''Exception'', ''BaseException''] ''bad city'' 7)) []
        [''messages'' \<mapsto> PList [PDict [(''content'', PStr ''weather in London'')]]])"
  using delegated_exception_recorded
    [where args = "[]"
       and kwargs = "[''messages'' \<mapsto> PList [PDict [(''content'', PStr ''weather in London'')]]]"
       and m = "[(''content'', PStr ''weather in London'')]"
       and mt = "''initial_request''"
       and c = "PStr ''weather in London''"
       and e = "Exn ''ValueError'' [''Exception'', ''BaseException''] ''bad city'' 7"
       and fmt = "\<lambda>v. []" and dumps = "\<lambda>v. Inr []"
       and agent = "\<lparr>type_name = ''AssistantAgent'', name_attr = Some (PStr ''WeatherAgent''),
         on_messages = Some (Coroutine (Original 0))\<rparr>"
       and original = "Original 0"
       and original_method = "\<lambda>a k. Inl (Exn ''ValueError'' [''Exception'', ''BaseException''] ''bad city'' 7)"]
  by (simp add: messages_arg_def latest_message_def kwargs_get_def py_or_def dict_get_def
      message_type_def cap_text_def isinstance_exn_def)

section \<open>Properties of the file exporter\<close>

subsection \<open>Digits and padding\<close>

lemma hex_char_lower: "d < 16 \<Longrightarrow> hex_char d \<in> set ''0123456789abcdef''"
  unfolding hex_char_def by (rule nth_mem) simp

lemma digit_char_digit: "d < 10 \<Longrightarrow> is_digit (digit_char d)"
  unfolding digit_char_def is_digit_def by (rule nth_mem) simp

lemma hex_digits_lower: "is_lower_hex (hex_digits n)"
proof (induction n rule: hex_digits.induct)
  case (1 n)
  show ?case
  proof (cases "n < 16")
    case True
    then have "hex_char n \<in> set ''0123456789abcdef''" by (rule hex_char_lower)
    then have "list_all (\<lambda>c. c \<in> set ''0123456789abcdef'') [hex_char n]"
      by simp
    with True show ?thesis
      by (simp only: hex_digits.simps [of n] is_lower_hex_def if_True)
  next
    case False
    have "n mod 16 < 16" by simp
    then have "hex_char (n mod 16) \<in> set ''0123456789abcdef''" by (rule hex_char_lower)
    then have a: "list_all (\<lambda>c. c \<in> set ''0123456789abcdef'') [hex_char (n mod 16)]"
      by simp
    from False have "is_lower_hex (hex_digits (n div 16))" by (rule 1)
    then have "list_all (\<lambda>c. c \<in> set ''0123456789abcdef'') (hex_digits (n div 16))"
      by (simp only: is_lower_hex_def)
    with a have "list_all (\<lambda>c. c \<in> set ''0123456789abcdef'')
                   (hex_digits (n div 16) @ [hex_char (n mod 16)])"
      by (simp only: list_all_append simp_thms)
    with False show ?thesis
      by (simp only: hex_digits.simps [of n] is_lower_hex_def if_False)
  qed
qed

lemma length_hex_digits: "n < 16 ^ w \<Longrightarrow> 0 < w \<Longrightarrow> length (hex_digits n) \<le> w"
proof (induction w arbitrary: n)
  case 0
  then show ?case by simp
next
  case (Suc w)
  show ?case
  proof (cases "n < 16")
    case True
    then show ?thesis by (simp add: hex_digits.simps [of n])
  next
    case False
    with Suc.prems have w: "0 < w" by (cases w) auto
    from Suc.prems have "n div 16 < 16 ^ w"
      by (simp add: less_mult_imp_div_less mult.commute)
    from this w have "length (hex_digits (n div 16)) \<le> w" by (rule Suc.IH)
    with False show ?thesis by (simp add: hex_digits.simps [of n])
  qed
qed

lemma show_nat_digits: "list_all is_digit (show_nat n)"
proof (induction n rule: show_nat.induct)
  case (1 n)
  show ?case
  proof (cases "n < 10")
    case True
    then show ?thesis
      using digit_char_digit [of n] by (simp add: show_nat.simps [of n])
  next
    case False
    have "n mod 10 < 10" by simp
    then have "is_digit (digit_char (n mod 10))" by (rule digit_char_digit)
    with False 1 show ?thesis
      by (simp add: show_nat.simps [of n])
  qed
qed

lemma length_show_nat: "n < 10 ^ w \<Longrightarrow> 0 < w \<Longrightarrow> length (show_nat n) \<le> w"
proof (induction w arbitrary: n)
  case 0
  then show ?case by simp
next
  case (Suc w)
  show ?case
  proof (cases "n < 10")
    case True
    then show ?thesis by (simp add: show_nat.simps [of n])
  next
    case False
    with Suc.prems have w: "0 < w" by (cases w) auto
    from Suc.prems have "n div 10 < 10 ^ w"
      by (simp add: less_mult_imp_div_less mult.commute)
    from this w have "length (show_nat (n div 10)) \<le> w" by (rule Suc.IH)
    with False show ?thesis by (simp add: show_nat.simps [of n])
  qed
qed

lemma length_zero_pad: "length ds \<le> w \<Longrightarrow> length (zero_pad w ds) = w"
  by (simp add: zero_pad_def)

lemma list_all_replicate: "P x \<Longrightarrow> list_all P (replicate k x)"
  by (induction k) simp_all

lemma zero_pad_lower_hex: "is_lower_hex ds \<Longrightarrow> is_lower_hex (zero_pad w ds)"
proof -
  assume "is_lower_hex ds"
  then have "list_all (\<lambda>c. c \<in> set ''0123456789abcdef'') ds"
    by (simp only: is_lower_hex_def)
  moreover have "list_all (\<lambda>c. c \<in> set ''0123456789abcdef'')
                   (replicate (w - length ds) (CHR ''0''))"
    by (rule list_all_replicate) simp
  ultimately have "list_all (\<lambda>c. c \<in> set ''0123456789abcdef'')
                     (replicate (w - length ds) (CHR ''0'') @ ds)"
    by (simp only: list_all_append simp_thms)
  then show ?thesis
    by (simp only: is_lower_hex_def zero_pad_def)
qed

lemma zero_pad_digits: "list_all is_digit ds \<Longrightarrow> list_all is_digit (zero_pad w ds)"
proof -
  assume d: "list_all is_digit ds"
  have "is_digit (CHR ''0'')" by (simp add: is_digit_def)
  then have "list_all is_digit (replicate (w - length ds) (CHR ''0''))"
    by (rule list_all_replicate)
  with d show ?thesis
    by (simp only: zero_pad_def list_all_append simp_thms)
qed

lemma format_hex_shape:
  assumes "n < 16 ^ w" and "0 < w"
  shows "length (format_hex w n) = w \<and> is_lower_hex (format_hex w n)"
proof -
  have "length (hex_digits n) \<le> w" using assms by (rule length_hex_digits)
  then have "length (format_hex w n) = w"
    by (simp add: format_hex_def length_zero_pad)
  moreover have "is_lower_hex (format_hex w n)"
    unfolding format_hex_def by (rule zero_pad_lower_hex) (rule hex_digits_lower)
  ultimately show ?thesis by simp
qed

lemma trace_id_shape:
  "length (format_hex 32 (unat (x :: 128 word))) = 32 \<and> is_lower_hex (format_hex 32 (unat x))"
proof -
  have "unat x < 2 ^ 128" using unsigned_less [of x] by simp
  then have "unat x < 16 ^ 32" by simp
  then show ?thesis by (rule format_hex_shape) simp
qed

lemma span_id_shape:
  "length (format_hex 16 (unat (x :: 64 word))) = 16 \<and> is_lower_hex (format_hex 16 (unat x))"
proof -
  have "unat x < 2 ^ 64" using unsigned_less [of x] by simp
  then have "unat x < 16 ^ 16" by simp
  then show ?thesis by (rule format_hex_shape) simp
qed

subsection \<open>Shapes\<close>

lemma matches_append:
  "matches p1 s1 \<Longrightarrow> matches p2 s2 \<Longrightarrow> matches (p1 @ p2) (s1 @ s2)"
  by (induction p1 s1 rule: matches.induct) auto

lemma matches_digits:
  "length s = w \<Longrightarrow> list_all is_digit s \<Longrightarrow> matches (replicate w (CHR ''d'')) s"
  by (induction s arbitrary: w) auto

lemma matches_no_plus:
  "matches p s \<Longrightarrow> CHR ''+'' \<notin> set p \<Longrightarrow> CHR ''+'' \<notin> set s"
  by (induction p s rule: matches.induct) (auto simp add: is_digit_def split: if_splits)

lemma pad_int_digits:
  assumes "0 \<le> n" and "n < 10 ^ w" and "0 < w"
  shows "matches (replicate w (CHR ''d'')) (pad_int w n)"
proof -
  from assms have "nat n < 10 ^ w"
    by (metis nat_less_iff of_nat_numeral of_nat_power)
  then have l: "length (show_nat (nat n)) \<le> w" using assms(3) by (rule length_show_nat)
  then have "length (pad_int w n) = w"
    by (simp add: pad_int_def length_zero_pad)
  moreover have "list_all is_digit (pad_int w n)"
    unfolding pad_int_def by (rule zero_pad_digits) (rule show_nat_digits)
  ultimately show ?thesis by (rule matches_digits)
qed

lemma pad2: "0 \<le> n \<Longrightarrow> n < 100 \<Longrightarrow> matches ''dd'' (pad_int 2 n)"
  using pad_int_digits [of n 2] by (simp add: numeral_2_eq_2)

lemma pad4: "0 \<le> n \<Longrightarrow> n < 10000 \<Longrightarrow> matches ''dddd'' (pad_int 4 n)"
  using pad_int_digits [of n 4] by (simp add: eval_nat_numeral)

lemma pad6: "0 \<le> n \<Longrightarrow> n < 1000000 \<Longrightarrow> matches ''dddddd'' (pad_int 6 n)"
  using pad_int_digits [of n 6] by (simp add: eval_nat_numeral)

lemma replace_offset:
  "CHR ''+'' \<notin> set p \<Longrightarrow> py_replace ''+00:00'' ''Z'' (p @ ''+00:00'') = p @ ''Z''"
  by (induction p) auto

subsection \<open>The text of a timestamp\<close>

lemma new_datetime_fields:
  assumes "new_datetime y mo d h mi s us = Inr dt"
  shows "1 \<le> year dt \<and> year dt \<le> 9999 \<and> 1 \<le> month dt \<and> month dt \<le> 12 \<and>
         1 \<le> day dt \<and> day dt \<le> 31 \<and> 0 \<le> hour dt \<and> hour dt < 24 \<and>
         0 \<le> minute dt \<and> minute dt < 60 \<and> 0 \<le> second dt \<and> second dt < 60 \<and>
         0 \<le> microsecond dt \<and> microsecond dt < 1000000"
proof -
  have dim: "days_in_month mo + (if mo = 2 \<and> is_leap y then 1 else 0) \<le> 31"
    if "1 \<le> mo" and "mo \<le> 12"
  proof -
    from that have "mo = 1 \<or> mo = 2 \<or> mo = 3 \<or> mo = 4 \<or> mo = 5 \<or> mo = 6 \<or>
                    mo = 7 \<or> mo = 8 \<or> mo = 9 \<or> mo = 10 \<or> mo = 11 \<or> mo = 12"
      by arith
    then show ?thesis
      by (auto simp add: days_in_month_def)
  qed
  from assms show ?thesis
    using dim by (auto simp add: new_datetime_def split: if_splits)
qed

lemma fromtimestamp_utc_fields:
  assumes "fromtimestamp_utc t = Inr dt"
  shows "\<exists>y mo d h mi s us. new_datetime y mo d h mi s us = Inr dt"
  using assms
  apply (simp add: fromtimestamp_utc_def Let_def split: prod.splits if_splits)
         apply blast+
  done

lemma isoformat_shape:
  assumes "1 \<le> year dt \<and> year dt \<le> 9999 \<and> 1 \<le> month dt \<and> month dt \<le> 12 \<and>
           1 \<le> day dt \<and> day dt \<le> 31 \<and> 0 \<le> hour dt \<and> hour dt < 24 \<and>
           0 \<le> minute dt \<and> minute dt < 60 \<and> 0 \<le> second dt \<and> second dt < 60 \<and>
           0 \<le> microsecond dt \<and> microsecond dt < 1000000"
  shows "\<exists>b. isoformat dt = b @ ''+00:00'' \<and>
             matches (if microsecond dt = 0 then ''dddd-dd-ddTdd:dd:dd''
                      else ''dddd-dd-ddTdd:dd:dd.dddddd'') b"
proof -
  have y: "matches ''dddd'' (pad_int 4 (year dt))" using assms by (intro pad4) auto
  have mo: "matches ''dd'' (pad_int 2 (month dt))" using assms by (intro pad2) auto
  have d: "matches ''dd'' (pad_int 2 (day dt))" using assms by (intro pad2) auto
  have h: "matches ''dd'' (pad_int 2 (hour dt))" using assms by (intro pad2) auto
  have mi: "matches ''dd'' (pad_int 2 (minute dt))" using assms by (intro pad2) auto
  have s: "matches ''dd'' (pad_int 2 (second dt))" using assms by (intro pad2) auto
  have us: "matches ''dddddd'' (pad_int 6 (microsecond dt))" using assms by (intro pad6) auto
  have dash: "matches ''-'' ''-''" and tee: "matches ''T'' ''T''"
    and colon: "matches '':'' '':''" and dot: "matches ''.'' ''.''"
    by simp_all
  have date: "matches (''dddd'' @ ''-'' @ ''dd'' @ ''-'' @ ''dd'' @ ''T'')
                (pad_int 4 (year dt) @ ''-'' @ pad_int 2 (month dt) @ ''-'' @
                 pad_int 2 (day dt) @ ''T'')"
    by (intro matches_append y mo d dash tee)
  have time: "matches (''dd'' @ '':'' @ ''dd'' @ '':'' @ ''dd'')
                (pad_int 2 (hour dt) @ '':'' @ pad_int 2 (minute dt) @ '':'' @
                 pad_int 2 (second dt))"
    by (intro matches_append h mi s colon)
  have short: "matches ((''dddd'' @ ''-'' @ ''dd'' @ ''-'' @ ''dd'' @ ''T'') @
                        (''dd'' @ '':'' @ ''dd'' @ '':'' @ ''dd''))
                 ((pad_int 4 (year dt) @ ''-'' @ pad_int 2 (month dt) @ ''-'' @
                   pad_int 2 (day dt) @ ''T'') @
                  (pad_int 2 (hour dt) @ '':'' @ pad_int 2 (minute dt) @ '':'' @
                   pad_int 2 (second dt)))"
    using date time by (rule matches_append)
  show ?thesis
  proof (cases "microsecond dt = 0")
    case True
    with short show ?thesis
      by (simp add: isoformat_def)
  next
    case False
    have frac: "matches (''.'' @ ''dddddd'') (''.'' @ pad_int 6 (microsecond dt))"
      using dot us by (rule matches_append)
    have "matches (((''dddd'' @ ''-'' @ ''dd'' @ ''-'' @ ''dd'' @ ''T'') @
                    (''dd'' @ '':'' @ ''dd'' @ '':'' @ ''dd'')) @ (''.'' @ ''dddddd''))
            (((pad_int 4 (year dt) @ ''-'' @ pad_int 2 (month dt) @ ''-'' @
               pad_int 2 (day dt) @ ''T'') @
              (pad_int 2 (hour dt) @ '':'' @ pad_int 2 (minute dt) @ '':'' @
               pad_int 2 (second dt))) @ (''.'' @ pad_int 6 (microsecond dt)))"
      using short frac by (rule matches_append)
    with False show ?thesis
      by (simp add: isoformat_def)
  qed
qed

lemma format_timestamp_shape:
  assumes "format_timestamp ns = Inr st"
  shows "\<exists>dt. timestamp_datetime ns = Inr dt \<and>
              matches (if microsecond dt = 0 then ''dddd-dd-ddTdd:dd:ddZ''
                       else ''dddd-dd-ddTdd:dd:dd.ddddddZ'') st"
proof -
  from assms obtain dt where dt: "timestamp_datetime ns = Inr dt"
    and st: "st = py_replace ''+00:00'' ''Z'' (isoformat dt)"
    by (auto simp add: format_timestamp_def split: sum.splits)
  from dt obtain t where "fromtimestamp_utc t = Inr dt"
    by (auto simp add: timestamp_datetime_def split: sum.splits)
  then obtain y mo d h mi s us where "new_datetime y mo d h mi s us = Inr dt"
    using fromtimestamp_utc_fields by blast
  then have "1 \<le> year dt \<and> year dt \<le> 9999 \<and> 1 \<le> month dt \<and> month dt \<le> 12 \<and>
         1 \<le> day dt \<and> day dt \<le> 31 \<and> 0 \<le> hour dt \<and> hour dt < 24 \<and>
         0 \<le> minute dt \<and> minute dt < 60 \<and> 0 \<le> second dt \<and> second dt < 60 \<and>
         0 \<le> microsecond dt \<and> microsecond dt < 1000000"
    by (rule new_datetime_fields)
  then obtain b where b: "isoformat dt = b @ ''+00:00''"
    and m: "matches (if microsecond dt = 0 then ''dddd-dd-ddTdd:dd:dd''
                     else ''dddd-dd-ddTdd:dd:dd.dddddd'') b"
    using isoformat_shape by blast
  have "CHR ''+'' \<notin> set (if microsecond dt = 0 then ''dddd-dd-ddTdd:dd:dd''
                           else ''dddd-dd-ddTdd:dd:dd.dddddd'')"
    by simp
  with m have "CHR ''+'' \<notin> set b" by (rule matches_no_plus)
  then have "py_replace ''+00:00'' ''Z'' (b @ ''+00:00'') = b @ ''Z''"
    by (rule replace_offset)
  with st b have stb: "st = b @ ''Z''" by simp
  have "matches ''Z'' ''Z''" by simp
  with m have "matches ((if microsecond dt = 0 then ''dddd-dd-ddTdd:dd:dd''
                         else ''dddd-dd-ddTdd:dd:dd.dddddd'') @ ''Z'') (b @ ''Z'')"
    by (rule matches_append)
  with stb have "matches (if microsecond dt = 0 then ''dddd-dd-ddTdd:dd:ddZ''
                          else ''dddd-dd-ddTdd:dd:dd.ddddddZ'') st"
    by (simp split: if_splits)
  with dt show ?thesis by blast
qed

subsection \<open>The records of export\<close>

lemma span_dict_shape:
  assumes "span_dict sd = Inr d"
  shows "record_shape sd (JObj d)"
proof -
  from assms obtain st et evs where
    st: "format_timestamp (start_time sd) = Inr st" and
    et: "format_timestamp (end_time sd) = Inr et" and
    d: "d = [(''name'', JStr (name sd)),
             (''trace_id'', JStr (format_hex 32 (unat (trace_id (span_context sd))))),
             (''span_id'', JStr (format_hex 16 (unat (span_id (span_context sd))))),
             (''parent_id'',
                (case parent sd of
                   Some p \<Rightarrow> JStr (format_hex 16 (unat (span_id p)))
                 | None \<Rightarrow> JNull)),
             (''start_time'', JStr st),
             (''end_time'', JStr et),
             (''duration_ns'', JInt (end_time sd - start_time sd)),
             (''attributes'', or_empty (data_attributes sd)),
             (''events'', JList evs),
             (''status'',
                JObj [(''status_code'', JStr (status_code_name (status_code (status sd)))),
                      (''description'', opt_str (description (status sd)))]),
             (''kind'', JStr (kind_name (data_kind sd))),
             (''resource'',
                (case resource sd of DictAttributes kvs \<Rightarrow> JObj kvs | _ \<Rightarrow> JObj [])),
             (''instrumentation_scope'',
                (case instrumentation_scope sd of
                   Some sc \<Rightarrow>
                     JObj [(''name'', JStr (scope_name sc)),
                           (''version'', opt_str (version sc)),
                           (''schema_url'', opt_str (schema_url sc))]
                 | None \<Rightarrow> JObj []))]"
    by (auto simp add: span_dict_def split: sum.splits)
  have t: "hex_field 32 (map_of d ''trace_id'')"
    using trace_id_shape [of "trace_id (span_context sd)"] by (simp add: d hex_field_def)
  have i: "hex_field 16 (map_of d ''span_id'')"
    using span_id_shape [of "span_id (span_context sd)"] by (simp add: d hex_field_def)
  have p: "map_of d ''parent_id'' = Some JNull \<or> hex_field 16 (map_of d ''parent_id'')"
  proof (cases "parent sd")
    case None
    then show ?thesis by (simp add: d)
  next
    case (Some c)
    then show ?thesis
      using span_id_shape [of "span_id c"] by (simp add: d hex_field_def)
  qed
  have du: "map_of d ''duration_ns'' = Some (JInt (end_time sd - start_time sd))"
    by (simp add: d)
  have s: "time_field (start_time sd) (map_of d ''start_time'')"
    using format_timestamp_shape [OF st] by (auto simp add: d time_field_def)
  have e: "time_field (end_time sd) (map_of d ''end_time'')"
    using format_timestamp_shape [OF et] by (auto simp add: d time_field_def)
  from t i p du s e show ?thesis
    by (simp add: record_shape_def)
qed

subsection \<open>A span that starts on a whole second\<close>

lemma whole_second_datetime:
  "timestamp_datetime 1700000000000000000 =
     Inr \<lparr>year = 2023, month = 11, day = 14, hour = 22, minute = 13, second = 20, microsecond = 0\<rparr>"
  by (simp add: timestamp_datetime_def true_div_1e9_def nearest_double_def scaled_round_def
      pow2_def bit_length.simps fromtimestamp_utc_def ord2ymd_def days_before_month_def
      days_in_month_def is_leap_def new_datetime_def Let_def)

lemma fraction_datetime:
  "timestamp_datetime 1700000000123456789 =
     Inr \<lparr>year = 2023, month = 11, day = 14, hour = 22, minute = 13, second = 20,
          microsecond = 123457\<rparr>"
  by (simp add: timestamp_datetime_def true_div_1e9_def nearest_double_def scaled_round_def
      pow2_def bit_length.simps fromtimestamp_utc_def ord2ymd_def days_before_month_def
      days_in_month_def is_leap_def new_datetime_def Let_def)

lemma whole_second_text: "format_timestamp 1700000000000000000 = Inr ''2023-11-14T22:13:20Z''"
  by (simp add: format_timestamp_def whole_second_datetime isoformat_def pad_int_def
      zero_pad_def show_nat.simps digit_char_def)

lemma fraction_text: "format_timestamp 1700000000123456789 = Inr ''2023-11-14T22:13:20.123457Z''"
  by (simp add: format_timestamp_def fraction_datetime isoformat_def pad_int_def
      zero_pad_def show_nat.simps digit_char_def)

lemma sample_trace_id:
  "format_hex 32 0x0af7651916cd43dd8448eb211c80319c = ''0af7651916cd43dd8448eb211c80319c''"
  by (simp add: format_hex_def zero_pad_def hex_digits.simps hex_char_def)

lemma sample_span_id:
  "format_hex 16 0xb7ad6b7169203331 = ''b7ad6b7169203331''"
  by (simp add: format_hex_def zero_pad_def hex_digits.simps hex_char_def)

lemma export_sample:
  "export \<lparr>file_path = ''telemetry_output.json'', spans = []\<rparr>
     [\<lparr>name = ''tool.weather_tool'',
        span_context = \<lparr>trace_id = 0x0af7651916cd43dd8448eb211c80319c, span_id = 0xb7ad6b7169203331\<rparr>,
        parent = None, start_time = 1700000000000000000, end_time = 1700000000123456789,
        data_attributes = Some [(''weather.city'', JStr ''London'')], data_events = [],
        status = \<lparr>status_code = UNSET, description = None\<rparr>, data_kind = CLIENT,
        resource = NoResource, instrumentation_scope = None\<rparr>] =
   (Inr True,
    \<lparr>file_path = ''telemetry_output.json'',
     spans = [JObj [(''name'', JStr ''tool.weather_tool''),
            (''trace_id'', JStr ''0af7651916cd43dd8448eb211c80319c''),
            (''span_id'', JStr ''b7ad6b7169203331''),
            (''parent_id'', JNull),
            (''start_time'', JStr ''2023-11-14T22:13:20Z''),
            (''end_time'', JStr ''2023-11-14T22:13:20.123457Z''),
            (''duration_ns'', JInt 123456789),
            (''attributes'', JObj [(''weather.city'', JStr ''London'')]),
            (''events'', JList []),
            (''status'', JObj [(''status_code'', JStr ''UNSET''), (''description'', JNull)]),
            (''kind'', JStr ''CLIENT''),
            (''resource'', JObj []),
            (''instrumentation_scope'', JObj [])]]\<rparr>)"
  by (simp add: span_dict_def whole_second_text fraction_text sample_trace_id sample_span_id
      or_empty_def opt_str_def)

text \<open>
  C8. The claim: every record emitted by \<open>export\<close> prints its two times as
  \<open>YYYY-MM-DDTHH:MM:SS.ssssssZ\<close>. \<open>isoformat\<close> leaves the fraction out when the
  microseconds are zero: a span that starts on a whole second gets the start time
  \<open>2023-11-14T22:13:20Z\<close>, which has not that shape.
\<close>

theorem export_whole_second_counterexample:
  "export \<lparr>file_path = ''telemetry_output.json'', spans = []\<rparr>
     [\<lparr>name = ''tool.weather_tool'',
        span_context = \<lparr>trace_id = 0x0af7651916cd43dd8448eb211c80319c, span_id = 0xb7ad6b7169203331\<rparr>,
        parent = None, start_time = 1700000000000000000, end_time = 1700000000123456789,
        data_attributes = Some [(''weather.city'', JStr ''London'')], data_events = [],
        status = \<lparr>status_code = UNSET, description = None\<rparr>, data_kind = CLIENT,
        resource = NoResource, instrumentation_scope = None\<rparr>] =
   (Inr True,
    \<lparr>file_path = ''telemetry_output.json'',
     spans = [JObj [(''name'', JStr ''tool.weather_tool''),
            (''trace_id'', JStr ''0af7651916cd43dd8448eb211c80319c''),
            (''span_id'', JStr ''b7ad6b7169203331''),
            (''parent_id'', JNull),
            (''start_time'', JStr ''2023-11-14T22:13:20Z''),
            (''end_time'', JStr ''2023-11-14T22:13:20.123457Z''),
            (''duration_ns'', JInt 123456789),
            (''attributes'', JObj [(''weather.city'', JStr ''London'')]),
            (''events'', JList []),
            (''status'', JObj [(''status_code'', JStr ''UNSET''), (''description'', JNull)]),
            (''kind'', JStr ''CLIENT''),
            (''resource'', JObj []),
            (''instrumentation_scope'', JObj [])]]\<rparr>) \<and>
   \<not> matches ''dddd-dd-ddTdd:dd:dd.ddddddZ'' ''2023-11-14T22:13:20Z''"
  using export_sample by simp

text \<open>
  C8, amended. For every span serialized by \<open>export\<close>, the emitted record has \<open>trace_id\<close>
  as 32 lowercase hexadecimal characters, \<open>span_id\<close> as 16, \<open>parent_id\<close> as 16 or null,
  \<open>duration_ns\<close> as the integer \<open>end_time - start_time\<close>, and each of \<open>start_time\<close> and
  \<open>end_time\<close> printed as \<open>YYYY-MM-DDTHH:MM:SS.ssssssZ\<close>, or as \<open>YYYY-MM-DDTHH:MM:SSZ\<close>
  when the microseconds of the timestamp are zero.
\<close>

theorem export_record_shape:
  assumes "export self sds = (Inr b, self')"
  shows "\<exists>rs. spans self' = spans self @ rs \<and> list_all2 record_shape sds rs"
  using assms
proof (induction sds arbitrary: self)
  case Nil
  then show ?case by auto
next
  case (Cons sd sds)
  from Cons.prems obtain d where d: "span_dict sd = Inr d"
    and rest: "export (self\<lparr>spans := spans self @ [JObj d]\<rparr>) sds = (Inr b, self')"
    by (auto split: sum.splits)
  from Cons.IH [OF rest] obtain rs where
    rs: "spans self' = (spans self @ [JObj d]) @ rs" and all: "list_all2 record_shape sds rs"
    by auto
  from d have "record_shape sd (JObj d)" by (rule span_dict_shape)
  with all have "list_all2 record_shape (sd # sds) (JObj d # rs)" by simp
  with rs show ?case by (metis append.assoc append_Cons append_Nil)
qed

text \<open>The witness: the record of the span above has the shape.\<close>

theorem export_record_shape_witness:
  "record_shape
     \<lparr>name = ''tool.weather_tool'',
        span_context = \<lparr>trace_id = 0x0af7651916cd43dd8448eb211c80319c, span_id = 0xb7ad6b7169203331\<rparr>,
        parent = None, start_time = 1700000000000000000, end_time = 1700000000123456789,
        data_attributes = Some [(''weather.city'', JStr ''London'')], data_events = [],
        status = \<lparr>status_code = UNSET, description = None\<rparr>, data_kind = CLIENT,
        resource = NoResource, instrumentation_scope = None\<rparr>
     (JObj [(''name'', JStr ''tool.weather_tool''),
            (''trace_id'', JStr ''0af7651916cd43dd8448eb211c80319c''),
            (''span_id'', JStr ''b7ad6b7169203331''),
            (''parent_id'', JNull),
            (''start_time'', JStr ''2023-11-14T22:13:20Z''),
            (''end_time'', JStr ''2023-11-14T22:13:20.123457Z''),
            (''duration_ns'', JInt 123456789),
            (''attributes'', JObj [(''weather.city'', JStr ''London'')]),
            (''events'', JList []),
            (''status'', JObj [(''status_code'', JStr ''UNSET''), (''description'', JNull)]),
            (''kind'', JStr ''CLIENT''),
            (''resource'', JObj []),
            (''instrumentation_scope'', JObj [])])"
  using export_record_shape [OF export_sample] by simp

end
